theory Spec2Isabelle
  imports Complex_Main
begin

section \<open>JavaScript numbers\<close>

text \<open>
  A JavaScript number is modelled as an exact real extended with the three special
  values of IEEE arithmetic. The operations follow the IEEE rules for the special
  values (a comparison with \<open>NaN\<close> is false, \<open>x / 0\<close> is an infinity or \<open>NaN\<close>,
  \<open>Infinity - Infinity\<close> is \<open>NaN\<close>); rounding, overflow of finite values and the
  sign of zero are not modelled, so a zero divisor is read as \<open>+0\<close>.
\<close>

datatype jsnum = Fin real | PInf | NInf | NaN

fun isFinite :: "jsnum \<Rightarrow> bool" where
  "isFinite (Fin _) = True"
| "isFinite _ = False"

fun jneg :: "jsnum \<Rightarrow> jsnum" where
  "jneg (Fin a) = Fin (- a)"
| "jneg PInf = NInf"
| "jneg NInf = PInf"
| "jneg NaN = NaN"

fun jadd :: "jsnum \<Rightarrow> jsnum \<Rightarrow> jsnum" where
  "jadd (Fin a) (Fin b) = Fin (a + b)"
| "jadd NaN _ = NaN"
| "jadd _ NaN = NaN"
| "jadd PInf NInf = NaN"
| "jadd NInf PInf = NaN"
| "jadd PInf _ = PInf"
| "jadd NInf _ = NInf"
| "jadd _ PInf = PInf"
| "jadd _ NInf = NInf"

definition jsub :: "jsnum \<Rightarrow> jsnum \<Rightarrow> jsnum" where
  "jsub x y = jadd x (jneg y)"

text \<open>The sign of a number: \<open>Some True\<close> positive, \<open>Some False\<close> negative, \<open>None\<close> zero or \<open>NaN\<close>.\<close>

fun jsign :: "jsnum \<Rightarrow> bool option" where
  "jsign (Fin a) = (if a > 0 then Some True else if a < 0 then Some False else None)"
| "jsign PInf = Some True"
| "jsign NInf = Some False"
| "jsign NaN = None"

definition signed_inf :: "bool \<Rightarrow> jsnum" where
  "signed_inf positive = (if positive then PInf else NInf)"

fun jmul :: "jsnum \<Rightarrow> jsnum \<Rightarrow> jsnum" where
  "jmul (Fin a) (Fin b) = Fin (a * b)"
| "jmul NaN _ = NaN"
| "jmul _ NaN = NaN"
| "jmul x y =
     (case (jsign x, jsign y) of
        (Some s, Some t) \<Rightarrow> signed_inf (s = t)
      | _ \<Rightarrow> NaN)"

fun jdiv :: "jsnum \<Rightarrow> jsnum \<Rightarrow> jsnum" where
  "jdiv (Fin a) (Fin b) =
     (if b = 0 then (if a = 0 then NaN else signed_inf (a > 0)) else Fin (a / b))"
| "jdiv NaN _ = NaN"
| "jdiv _ NaN = NaN"
| "jdiv (Fin a) _ = Fin 0"
| "jdiv x (Fin b) = (case jsign x of Some s \<Rightarrow> signed_inf (s = (b \<ge> 0)) | None \<Rightarrow> NaN)"
| "jdiv _ _ = NaN"

fun jlt :: "jsnum \<Rightarrow> jsnum \<Rightarrow> bool" where
  "jlt (Fin a) (Fin b) = (a < b)"
| "jlt NaN _ = False"
| "jlt _ NaN = False"
| "jlt NInf NInf = False"
| "jlt NInf _ = True"
| "jlt _ NInf = False"
| "jlt PInf _ = False"
| "jlt _ PInf = True"

definition jgt :: "jsnum \<Rightarrow> jsnum \<Rightarrow> bool" where
  "jgt x y = jlt y x"

text \<open>Strict equality \<open>===\<close> on numbers: \<open>NaN\<close> equals nothing.\<close>

definition jeq :: "jsnum \<Rightarrow> jsnum \<Rightarrow> bool" where
  "jeq x y = (x \<noteq> NaN \<and> x = y)"

definition jle :: "jsnum \<Rightarrow> jsnum \<Rightarrow> bool" where
  "jle x y = (jlt x y \<or> jeq x y)"

definition jge :: "jsnum \<Rightarrow> jsnum \<Rightarrow> bool" where
  "jge x y = jle y x"

fun jabs :: "jsnum \<Rightarrow> jsnum" where
  "jabs (Fin a) = Fin \<bar>a\<bar>"
| "jabs NaN = NaN"
| "jabs _ = PInf"

text \<open>\<open>Math.max\<close> and \<open>Math.min\<close>: \<open>NaN\<close> if any argument is, \<open>-Infinity\<close> and
  \<open>Infinity\<close> on no arguments.\<close>

definition jmax2 :: "jsnum \<Rightarrow> jsnum \<Rightarrow> jsnum" where
  "jmax2 x y = (if x = NaN \<or> y = NaN then NaN else if jlt x y then y else x)"

definition jmin2 :: "jsnum \<Rightarrow> jsnum \<Rightarrow> jsnum" where
  "jmin2 x y = (if x = NaN \<or> y = NaN then NaN else if jlt y x then y else x)"

definition Math_max :: "jsnum list \<Rightarrow> jsnum" where
  "Math_max xs = fold (\<lambda>x m. jmax2 m x) xs NInf"

definition Math_min :: "jsnum list \<Rightarrow> jsnum" where
  "Math_min xs = fold (\<lambda>x m. jmin2 m x) xs PInf"

text \<open>Truthiness of a number in \<open>x || y\<close>: zero and \<open>NaN\<close> are falsy.\<close>

definition truthy :: "jsnum \<Rightarrow> bool" where
  "truthy x = (x \<noteq> Fin 0 \<and> x \<noteq> NaN)"

text \<open>An array read: out of range gives \<open>undefined\<close>, which is \<open>NaN\<close> in arithmetic
  and false in every comparison.\<close>

definition js_nth :: "jsnum list \<Rightarrow> nat \<Rightarrow> jsnum" where
  "js_nth xs i = (if i < length xs then xs ! i else NaN)"

text \<open>The last element, \<open>xs[xs.length - 1]\<close>: \<open>undefined\<close> on the empty array.\<close>

definition js_last :: "jsnum list \<Rightarrow> jsnum" where
  "js_last xs = (if xs = [] then NaN else last xs)"

text \<open>\<open>xs.slice(-k)\<close>: the last \<open>k\<close> elements, and the whole array when \<open>k\<close> is 0
  (\<open>-0\<close> is \<open>0\<close>); \<open>xs.slice(0, k)\<close> is \<^term>\<open>take k xs\<close>.\<close>

definition slice_last :: "nat \<Rightarrow> 'a list \<Rightarrow> 'a list" where
  "slice_last k xs = (if k = 0 then xs else drop (length xs - k) xs)"

text \<open>\<open>xs.reduce((a, b) => a + b, 0)\<close>.\<close>

definition jsum :: "jsnum list \<Rightarrow> jsnum" where
  "jsum xs = fold (\<lambda>x acc. jadd acc x) xs (Fin 0)"

section \<open>The analysis engine (engine.js)\<close>

subsection \<open>Indicators\<close>

text \<open>The first loop of \<open>calculateRSI\<close> accumulates gains and losses over the first
  \<open>period\<close> changes, the second smooths the averages over the rest of the series.\<close>

definition rsi_seed_step :: "jsnum list \<Rightarrow> nat \<Rightarrow> jsnum \<times> jsnum \<Rightarrow> jsnum \<times> jsnum" where
  "rsi_seed_step prices i acc =
     (case acc of (gains, losses) \<Rightarrow>
        let change = jsub (js_nth prices i) (js_nth prices (i - 1))
        in if jgt change (Fin 0) then (jadd gains change, losses)
           else (gains, jsub losses change))"

definition rsi_smooth_step ::
    "jsnum list \<Rightarrow> nat \<Rightarrow> nat \<Rightarrow> jsnum \<times> jsnum \<Rightarrow> jsnum \<times> jsnum" where
  "rsi_smooth_step prices period i acc =
     (case acc of (avgGain, avgLoss) \<Rightarrow>
        let change = jsub (js_nth prices i) (js_nth prices (i - 1));
            p = Fin (real period);
            p1 = Fin (real period - 1)
        in if jgt change (Fin 0)
           then (jdiv (jadd (jmul avgGain p1) change) p, jdiv (jmul avgLoss p1) p)
           else (jdiv (jmul avgGain p1) p, jdiv (jsub (jmul avgLoss p1) change) p))"

definition calculateRSI :: "jsnum list \<Rightarrow> nat \<Rightarrow> jsnum" where
  "calculateRSI prices period =
     (if length prices < period + 1 then Fin 50
      else
        case fold (rsi_seed_step prices) [1 ..< period + 1] (Fin 0, Fin 0) of
          (gains, losses) \<Rightarrow>
            (case fold (rsi_smooth_step prices period) [period + 1 ..< length prices]
                    (jdiv gains (Fin (real period)), jdiv losses (Fin (real period))) of
               (avgGain, avgLoss) \<Rightarrow>
                 if jeq avgLoss (Fin 0) then Fin 100
                 else let rs = jdiv avgGain avgLoss
                      in jsub (Fin 100) (jdiv (Fin 100) (jadd (Fin 1) rs))))"

definition calculateEMA :: "jsnum list \<Rightarrow> nat \<Rightarrow> jsnum" where
  "calculateEMA prices period =
     (if length prices < period then js_last prices
      else
        let multiplier = jdiv (Fin 2) (Fin (real period + 1));
            seed = jdiv (jsum (take period prices)) (Fin (real period))
        in fold (\<lambda>i ema. jadd (jmul (jsub (js_nth prices i) ema) multiplier) ema)
             [period ..< length prices] seed)"

definition typical_prices :: "jsnum list \<Rightarrow> jsnum list \<Rightarrow> jsnum list \<Rightarrow> jsnum list" where
  "typical_prices highs lows closes =
     map (\<lambda>i. jdiv (jadd (jadd (js_nth highs i) (js_nth lows i)) (closes ! i)) (Fin 3))
       [0 ..< length closes]"

definition calculateCCI :: "jsnum list \<Rightarrow> jsnum list \<Rightarrow> jsnum list \<Rightarrow> nat \<Rightarrow> jsnum" where
  "calculateCCI highs lows closes period =
     (if length closes < period then Fin 0
      else
        let typicalPrices = typical_prices highs lows closes;
            sma = jdiv (jsum (slice_last period typicalPrices)) (Fin (real period));
            meanDev = jdiv (fold (\<lambda>tp sm. jadd sm (jabs (jsub tp sma)))
                              (slice_last period typicalPrices) (Fin 0))
                        (Fin (real period))
        in if jeq meanDev (Fin 0) then Fin 0
           else
             let currentTP = js_last typicalPrices
             in jdiv (jsub currentTP sma) (jmul (Fin (15 / 1000)) meanDev))"

definition calculateSchaffTrendCycle :: "jsnum list \<Rightarrow> nat \<Rightarrow> nat \<Rightarrow> nat \<Rightarrow> jsnum" where
  "calculateSchaffTrendCycle closes fastPeriod slowPeriod cyclePeriod =
     (if length closes < slowPeriod + cyclePeriod then Fin 50
      else
        let fastEMA = calculateEMA closes fastPeriod;
            slowEMA = calculateEMA closes slowPeriod;
            macd = jsub fastEMA slowEMA;
            macdArray =
              map (\<lambda>i. let sliceData = take (i + 1) closes
                        in jsub (calculateEMA sliceData fastPeriod)
                                (calculateEMA sliceData slowPeriod))
                [length closes - cyclePeriod * 2 ..< length closes];
            recentMACD = slice_last cyclePeriod macdArray;
            maxMACD = Math_max recentMACD;
            minMACD = Math_min recentMACD;
            range = jsub maxMACD minMACD
        in if jeq range (Fin 0) then Fin 50
           else jmul (jdiv (jsub macd minMACD) range) (Fin 100))"

text \<open>The record \<open>calculateSTCCCI\<close> returns; the last three fields are absent from the
  record returned for a short series.\<close>

record stcCci =
  r_value :: jsnum
  r_signal :: string
  r_strength :: jsnum
  r_stc :: "jsnum option"
  r_cci :: "jsnum option"
  r_priceChange :: "jsnum option"

definition calculateSTCCCI :: "jsnum list \<Rightarrow> jsnum list \<Rightarrow> jsnum list \<Rightarrow> nat \<Rightarrow> stcCci" where
  "calculateSTCCCI highs lows closes period =
     (if length closes < 50 then
        \<lparr> r_value = Fin 0, r_signal = ''NEUTRAL'', r_strength = Fin 0,
          r_stc = None, r_cci = None, r_priceChange = None \<rparr>
      else
        let stcV = calculateSchaffTrendCycle closes 23 50 10;
            cciV = calculateCCI highs lows closes period;
            recentCloses = slice_last 5 closes;
            priceChange =
              jmul (jdiv (jsub (js_last recentCloses) (js_nth recentCloses 0))
                         (js_nth recentCloses 0)) (Fin 100);
            stcBullish = jgt stcV (Fin 50);
            cciBullish = jgt cciV (Fin 0);
            priceMovingUp = jgt priceChange (Fin 0);
            bullishSignals = (if stcBullish then 1 else 0) + (if cciBullish then 1 else 0)
                             + (if priceMovingUp then 1 else (0::nat));
            sg = (if bullishSignals \<ge> 2 then (''BUY'', Fin 30)
                  else if bullishSignals \<le> 1 then (''SELL'', Fin (- 30))
                  else (''NEUTRAL'', Fin 0))
        in \<lparr> r_value = snd sg, r_signal = fst sg, r_strength = jabs (snd sg),
             r_stc = Some stcV, r_cci = Some cciV, r_priceChange = Some priceChange \<rparr>)"

subsection \<open>Scores and the total score\<close>

text \<open>The fields of the indicator set that the scoring reads. \<open>occ\<close> and \<open>stcCci\<close> are read
  through \<open>?.value\<close>; \<open>None\<close> stands for a missing record or a value that is not a number.\<close>

record indicatorSet =
  i_rsi :: jsnum
  i_macd :: jsnum
  i_stochRsi :: jsnum
  i_mfi :: jsnum
  i_trend :: string
  i_divergence :: "string option"
  i_occ :: "jsnum option"
  i_stcCci :: "jsnum option"
  i_atr :: jsnum

record config =
  tradingMode :: string
  backtestThreshold :: "jsnum option"
  divergenceDetection :: bool
  trendFilter :: bool

record scoreEntry =
  score :: jsnum
  weight :: jsnum

record divergenceEntry =
  dv_value :: "string option"
  dv_weight :: jsnum

record scoreSet =
  sc_rsi :: scoreEntry
  sc_macd :: scoreEntry
  sc_stochRsi :: scoreEntry
  sc_mfi :: scoreEntry
  sc_trend :: scoreEntry
  sc_occ :: scoreEntry
  sc_stcCci :: scoreEntry
  sc_divergence :: divergenceEntry

text \<open>\<open>ANALYSIS_CONFIG.INDICATOR_WEIGHTS\<close>, in the order of the table.\<close>

record indicatorWeights =
  wt_rsi :: jsnum
  wt_macd :: jsnum
  wt_stochRsi :: jsnum
  wt_mfi :: jsnum
  wt_trend :: jsnum
  wt_occ :: jsnum
  wt_stcCci :: jsnum

definition INDICATOR_WEIGHTS :: indicatorWeights where
  "INDICATOR_WEIGHTS =
     \<lparr> wt_rsi = Fin 1, wt_macd = Fin 1, wt_stochRsi = Fin (8 / 10), wt_mfi = Fin (8 / 10),
       wt_trend = Fin (12 / 10), wt_occ = Fin 1, wt_stcCci = Fin 1 \<rparr>"

definition calculateRSIScore :: "jsnum \<Rightarrow> jsnum" where
  "calculateRSIScore rsi =
     (if jlt rsi (Fin 20) then Fin 40
      else if jlt rsi (Fin 30) then Fin 30
      else if jlt rsi (Fin 40) then Fin 15
      else if jgt rsi (Fin 80) then Fin (- 40)
      else if jgt rsi (Fin 70) then Fin (- 30)
      else if jgt rsi (Fin 60) then Fin (- 15)
      else Fin 0)"

text \<open>\<open>Number.isFinite(x) ? x : d\<close>.\<close>

definition finite_or :: "jsnum \<Rightarrow> jsnum \<Rightarrow> jsnum" where
  "finite_or x d = (if isFinite x then x else d)"

definition calculateIndicatorScores :: "indicatorSet \<Rightarrow> config \<Rightarrow> scoreSet" where
  "calculateIndicatorScores ind cfg =
     (let atrValue = (if isFinite (i_atr ind) \<and> jgt (i_atr ind) (Fin 0)
                      then i_atr ind else Fin (1 / 10000));
          rsiValue = finite_or (i_rsi ind) (Fin 50);
          macdValue = finite_or (i_macd ind) (Fin 0);
          stochValue = finite_or (i_stochRsi ind) (Fin 50);
          mfiValue = finite_or (i_mfi ind) (Fin 50);
          occValue = (case i_occ ind of Some v \<Rightarrow> finite_or v (Fin 0) | None \<Rightarrow> Fin 0);
          stcCciValue = (case i_stcCci ind of Some v \<Rightarrow> finite_or v (Fin 0) | None \<Rightarrow> Fin 0)
      in \<lparr> sc_rsi = \<lparr> score = calculateRSIScore rsiValue, weight = wt_rsi INDICATOR_WEIGHTS \<rparr>,
           sc_macd = \<lparr> score = jmul (jdiv macdValue atrValue) (Fin 50),
                       weight = wt_macd INDICATOR_WEIGHTS \<rparr>,
           sc_stochRsi = \<lparr> score = jmul (jsub stochValue (Fin 50)) (Fin 2),
                           weight = wt_stochRsi INDICATOR_WEIGHTS \<rparr>,
           sc_mfi = \<lparr> score = jmul (jsub mfiValue (Fin 50)) (Fin 2),
                      weight = wt_mfi INDICATOR_WEIGHTS \<rparr>,
           sc_trend = \<lparr> score = (if i_trend ind = ''uptrend'' then Fin 30
                                  else if i_trend ind = ''downtrend'' then Fin (- 30)
                                  else Fin 0),
                        weight = wt_trend INDICATOR_WEIGHTS \<rparr>,
           sc_occ = \<lparr> score = occValue, weight = wt_occ INDICATOR_WEIGHTS \<rparr>,
           sc_stcCci = \<lparr> score = stcCciValue, weight = wt_stcCci INDICATOR_WEIGHTS \<rparr>,
           sc_divergence = \<lparr> dv_value = i_divergence ind, dv_weight = Fin 0 \<rparr> \<rparr>)"

definition adjustScoreByMode :: "jsnum \<Rightarrow> string \<Rightarrow> jsnum" where
  "adjustScoreByMode sc mode =
     (if mode = ''aggressive'' then jmul sc (Fin (8 / 10))
      else if mode = ''conservative'' then jmul sc (Fin (15 / 10))
      else sc)"

text \<open>\<open>Object.values(indicatorScores)\<close> with the \<open>score\<close> property of each value: the
  divergence entry has none (\<open>undefined\<close>, which is not finite).\<close>

definition score_values :: "scoreSet \<Rightarrow> jsnum option list" where
  "score_values s =
     [Some (score (sc_rsi s)), Some (score (sc_macd s)), Some (score (sc_stochRsi s)),
      Some (score (sc_mfi s)), Some (score (sc_trend s)), Some (score (sc_occ s)),
      Some (score (sc_stcCci s)), None]"

definition add_if_finite :: "jsnum option \<Rightarrow> jsnum \<Rightarrow> jsnum" where
  "add_if_finite sc acc =
     (case sc of Some v \<Rightarrow> if isFinite v then jadd acc v else acc | None \<Rightarrow> acc)"

definition calculateTotalScore :: "scoreSet \<Rightarrow> config \<Rightarrow> jsnum" where
  "calculateTotalScore indicatorScores cfg =
     (let summed = fold add_if_finite (score_values indicatorScores) (Fin 0);
          guarded = (if \<not> isFinite summed then Fin 0 else summed);
          scaled = adjustScoreByMode guarded (tradingMode cfg);
          bull = (if divergenceDetection cfg
                     \<and> dv_value (sc_divergence indicatorScores) = Some ''bullish''
                  then jadd scaled (Fin 20) else scaled);
          bear = (if divergenceDetection cfg
                     \<and> dv_value (sc_divergence indicatorScores) = Some ''bearish''
                  then jsub bull (Fin 20) else bull)
      in bear)"

section \<open>The metrics consumer (SystemState)\<close>

text \<open>
  The rolling window is the private variable \<open>decisionWindow\<close> of the module; the model
  passes it in and returns it. A console line is kept by its level only.
\<close>

datatype console_event = ConsoleLog | ConsoleWarn

text \<open>The argument of \<open>SystemState.recordDecision\<close>: every field may be missing
  (\<open>undefined\<close>, here \<open>None\<close>), and the argument itself may be.\<close>

record payload =
  p_timeframe :: "string option"
  p_direction :: "string option"
  p_success :: "bool option"
  p_return :: "jsnum option"
  p_confidence :: "jsnum option"
  p_timestamp :: "nat option"

record windowEntry =
  w_timeframe :: string
  w_direction :: string
  w_success :: bool
  w_return :: jsnum
  w_confidence :: jsnum
  w_timestamp :: nat

definition WINDOW_SIZE :: nat where
  "WINDOW_SIZE = 50"

text \<open>\<open>s || d\<close> on an optional string and on an optional number.\<close>

definition str_or :: "string option \<Rightarrow> string \<Rightarrow> string" where
  "str_or s d = (case s of Some v \<Rightarrow> if v = [] then d else v | None \<Rightarrow> d)"

definition num_or :: "jsnum option \<Rightarrow> jsnum \<Rightarrow> jsnum" where
  "num_or x d = (case x of Some v \<Rightarrow> if truthy v then v else d | None \<Rightarrow> d)"

text \<open>The entry that \<open>recordDecision\<close> pushes for a payload whose \<open>success\<close> is \<open>s\<close>.\<close>

definition stored_entry :: "nat \<Rightarrow> payload \<Rightarrow> bool \<Rightarrow> windowEntry" where
  "stored_entry now p s =
     \<lparr> w_timeframe = str_or (p_timeframe p) ''unknown'',
       w_direction = str_or (p_direction p) ''NEUTRAL'',
       w_success = s,
       w_return = num_or (p_return p) (Fin 0),
       w_confidence = num_or (p_confidence p) (Fin 0),
       w_timestamp = (case p_timestamp p of
                        Some t \<Rightarrow> if t = 0 then now else t
                      | None \<Rightarrow> now) \<rparr>"

definition SystemState_recordDecision ::
    "nat \<Rightarrow> payload option \<Rightarrow> windowEntry list \<Rightarrow> windowEntry list \<times> console_event list" where
  "SystemState_recordDecision now data decisionWindow =
     (case data of
        None \<Rightarrow> (decisionWindow, [ConsoleWarn])
      | Some p \<Rightarrow>
          (case p_success p of
             None \<Rightarrow> (decisionWindow, [ConsoleWarn])
           | Some s \<Rightarrow>
               (let pushed = decisionWindow @ [stored_entry now p s];
                    shifted = (if length pushed > WINDOW_SIZE then tl pushed else pushed)
                in (shifted, [ConsoleLog]))))"

definition calculateAccuracy :: "windowEntry list \<Rightarrow> jsnum" where
  "calculateAccuracy window =
     (if length window = 0 then Fin 0
      else let successes = length (filter (\<lambda>d. w_success d = True) window)
           in jmul (jdiv (Fin (real successes)) (Fin (real (length window)))) (Fin 100))"

text \<open>The loop of \<open>calculateConsecutiveErrors\<close> walks the window from its last entry
  backwards and stops at the first success; the model walks the reversed window.\<close>

fun errors_loop :: "windowEntry list \<Rightarrow> nat \<Rightarrow> nat \<Rightarrow> nat \<times> nat" where
  "errors_loop [] current mx = (current, mx)"
| "errors_loop (d # ds) current mx =
     (if w_success d = False then errors_loop ds (current + 1) (max mx (current + 1))
      else (current, mx))"

definition calculateConsecutiveErrors :: "windowEntry list \<Rightarrow> nat \<times> nat" where
  "calculateConsecutiveErrors window = errors_loop (rev window) 0 0"

section \<open>The decision ledger (evaluation.js)\<close>

datatype status = Pending | Ready | Evaluated

datatype outcome = Correct | Incorrect | Neutral

record evaluation =
  e_result :: outcome
  e_futurePrice :: jsnum
  e_priceChange :: jsnum
  e_evaluatedAt :: nat

record marketContext =
  totalScore :: jsnum
  marketRegime :: string
  relativeVolatility :: jsnum

text \<open>The snapshot of the indicators stored with a decision is a shallow copy that the
  ledger never reads; it is kept as the list of its entries.\<close>

type_synonym snapshot = "(string \<times> jsnum) list"

text \<open>The payload of \<open>recordDecision\<close>, typed as its documentation comment types it; the
  optional horizon override is \<open>None\<close> when the field is absent.\<close>

record decisionData =
  dd_direction :: string
  dd_confidence :: jsnum
  dd_currentPrice :: jsnum
  dd_indicators :: snapshot
  dd_timeframe :: string
  dd_explanation :: string
  dd_marketContext :: marketContext
  dd_evaluationHorizon :: "jsnum option"

record decision =
  ident :: jsnum
  timestamp :: nat
  direction :: string
  confidence :: jsnum
  currentPrice :: jsnum
  indicators :: snapshot
  timeframe :: string
  explanation :: string
  marketContext :: marketContext
  evaluationHorizon :: jsnum
  status :: status
  evaluation :: "evaluation option"

text \<open>
  \<open>horizonMap\<close> is an object literal, so \<open>horizonMap[timeframe]\<close> also finds the
  properties every object inherits from \<open>Object.prototype\<close>. Their values are functions
  (or the prototype object itself): truthy, and \<open>NaN\<close> once multiplied.
\<close>

definition object_prototype_keys :: "string list" where
  "object_prototype_keys =
     [''constructor'', ''hasOwnProperty'', ''isPrototypeOf'', ''propertyIsEnumerable'',
      ''toLocaleString'', ''toString'', ''valueOf'', ''__proto__'',
      ''__defineGetter__'', ''__defineSetter__'', ''__lookupGetter__'', ''__lookupSetter__'']"

definition getEvaluationHorizon :: "string \<Rightarrow> jsnum" where
  "getEvaluationHorizon tf =
     (if tf = ''1m'' then Fin 3
      else if tf = ''5m'' then Fin 15
      else if tf = ''15m'' then Fin 45
      else if tf = ''1h'' then Fin 180
      else if tf \<in> set object_prototype_keys then NaN
      else Fin 5)"

text \<open>
  \<open>recordDecision\<close> reads the clock and the random generator; the model takes the new
  identifier (\<open>Date.now() + Math.random()\<close>) and the clock reading as arguments and returns
  the new history; \<open>new_decision\<close> is the object it builds. The console line it prints is
  not part of the state.
\<close>

definition new_decision :: "jsnum \<Rightarrow> nat \<Rightarrow> decisionData \<Rightarrow> decision" where
  "new_decision newId now decisionData =
     (let horizonMinutes = getEvaluationHorizon (dd_timeframe decisionData);
          horizon =
            (case dd_evaluationHorizon decisionData of
               Some h \<Rightarrow> if truthy h then h else jmul (jmul horizonMinutes (Fin 60)) (Fin 1000)
             | None \<Rightarrow> jmul (jmul horizonMinutes (Fin 60)) (Fin 1000))
      in \<lparr> ident = newId,
           timestamp = now,
           direction = dd_direction decisionData,
           confidence = dd_confidence decisionData,
           currentPrice = dd_currentPrice decisionData,
           indicators = dd_indicators decisionData,
           timeframe = dd_timeframe decisionData,
           explanation = dd_explanation decisionData,
           marketContext = dd_marketContext decisionData,
           evaluationHorizon = horizon,
           status = Pending,
           evaluation = None \<rparr>)"

definition recordDecision :: "jsnum \<Rightarrow> nat \<Rightarrow> decisionData \<Rightarrow> decision list \<Rightarrow> decision list" where
  "recordDecision newId now decisionData decisionHistory =
     (let pushed = decisionHistory @ [new_decision newId now decisionData]
      in if length pushed > 1000 then slice_last 1000 pushed else pushed)"

text \<open>A sequence of \<open>recordDecision\<close> calls, each with its identifier, clock reading and
  payload.\<close>

fun record_all :: "(jsnum \<times> nat \<times> decisionData) list \<Rightarrow> decision list \<Rightarrow> decision list" where
  "record_all [] decisionHistory = decisionHistory"
| "record_all ((newId, now, decisionData) # calls) decisionHistory =
     record_all calls (recordDecision newId now decisionData decisionHistory)"

definition isDecisionReady :: "decision \<Rightarrow> nat \<Rightarrow> bool" where
  "isDecisionReady d currentTime =
     (let timeElapsed = Fin (real_of_int (int currentTime - int (timestamp d)))
      in jge timeElapsed (evaluationHorizon d))"

definition updateDecisionStatuses :: "nat \<Rightarrow> decision list \<Rightarrow> decision list" where
  "updateDecisionStatuses now decisionHistory =
     map (\<lambda>d. if status d = Pending \<and> isDecisionReady d now then d\<lparr>status := Ready\<rparr> else d)
       decisionHistory"

text \<open>
  \<open>evaluateDecision\<close> mutates the decision it is given and, when the global
  \<open>window.SystemState\<close> exists, calls its \<open>recordDecision\<close>. The model returns the
  result (\<open>None\<close> for \<open>null\<close>), the decision and the consumer's window; the consumer is
  \<open>None\<close> when the global is absent. The clock readings of one call are one instant.
\<close>

definition threshold :: jsnum where
  "threshold = Fin (1 / 10)"

definition classify :: "string \<Rightarrow> jsnum \<Rightarrow> outcome" where
  "classify dir priceChange =
     (if dir = ''BUY'' then
        (if jgt priceChange threshold then Correct
         else if jlt priceChange (jneg threshold) then Incorrect
         else Neutral)
      else if dir = ''SELL'' then
        (if jlt priceChange (jneg threshold) then Correct
         else if jgt priceChange threshold then Incorrect
         else Neutral)
      else Neutral)"

definition evaluateDecision ::
    "nat \<Rightarrow> decision \<Rightarrow> jsnum \<Rightarrow> windowEntry list option
       \<Rightarrow> outcome option \<times> decision \<times> windowEntry list option" where
  "evaluateDecision now d futurePrice consumer =
     (if status d \<noteq> Ready then (None, d, consumer)
      else
        let priceChange =
              jmul (jdiv (jsub futurePrice (currentPrice d)) (currentPrice d)) (Fin 100);
            res = classify (direction d) priceChange;
            d' = d\<lparr> status := Evaluated,
                    evaluation := Some \<lparr> e_result = res,
                                         e_futurePrice = futurePrice,
                                         e_priceChange = priceChange,
                                         e_evaluatedAt = now \<rparr> \<rparr>;
            consumer' =
              (case consumer of
                 None \<Rightarrow> None
               | Some w \<Rightarrow>
                   Some (fst (SystemState_recordDecision now
                     (Some \<lparr> p_timeframe = Some (timeframe d),
                             p_direction = Some (direction d),
                             p_success = Some (res = Correct),
                             p_return = Some priceChange,
                             p_confidence = Some (confidence d),
                             p_timestamp = Some now \<rparr>) w)))
        in (Some res, d', consumer'))"

text \<open>\<open>evaluatePendingDecisions\<close>: the statuses are advanced first, then every decision
  that is ready is evaluated, in the order of the history, against the one price.\<close>

fun evaluate_ready ::
    "nat \<Rightarrow> jsnum \<Rightarrow> decision list \<Rightarrow> windowEntry list option
       \<Rightarrow> decision list \<times> windowEntry list option" where
  "evaluate_ready now price [] consumer = ([], consumer)"
| "evaluate_ready now price (d # ds) consumer =
     (if status d = Ready then
        (case evaluateDecision now d price consumer of
           (_, d', consumer') \<Rightarrow>
             (case evaluate_ready now price ds consumer' of
                (ds', consumer'') \<Rightarrow> (d' # ds', consumer'')))
      else
        (case evaluate_ready now price ds consumer of
           (ds', consumer') \<Rightarrow> (d # ds', consumer')))"

definition evaluatePendingDecisions ::
    "nat \<Rightarrow> jsnum \<Rightarrow> decision list \<Rightarrow> windowEntry list option
       \<Rightarrow> decision list \<times> windowEntry list option" where
  "evaluatePendingDecisions now price decisionHistory consumer =
     evaluate_ready now price (updateDecisionStatuses now decisionHistory) consumer"

subsection \<open>Statistics\<close>

record stats =
  s_total :: nat
  s_pending :: nat
  s_ready :: nat
  s_evaluated :: nat
  s_correct :: nat
  s_incorrect :: nat
  s_neutral :: nat
  s_accuracy :: jsnum
  s_winRate :: jsnum

datatype error = TypeError

definition count_status :: "status \<Rightarrow> decision list \<Rightarrow> nat" where
  "count_status st ds = length (filter (\<lambda>d. status d = st) ds)"

definition count_result :: "outcome \<Rightarrow> decision list \<Rightarrow> nat" where
  "count_result r ds = length (filter (\<lambda>d. map_option e_result (evaluation d) = Some r) ds)"

text \<open>Reading \<open>d.evaluation.result\<close> of a decision whose evaluation is \<open>null\<close> throws.\<close>

definition getPerformanceStats :: "decision list \<Rightarrow> error + stats" where
  "getPerformanceStats decisionHistory =
     (let evaluated = filter (\<lambda>d. status d = Evaluated) decisionHistory in
      if length evaluated = 0 then
        Inr \<lparr> s_total = 0,
              s_pending = count_status Pending decisionHistory,
              s_ready = count_status Ready decisionHistory,
              s_evaluated = 0, s_correct = 0, s_incorrect = 0, s_neutral = 0,
              s_accuracy = Fin 0, s_winRate = Fin 0 \<rparr>
      else if list_ex (\<lambda>d. evaluation d = None) evaluated then Inl TypeError
      else
        let correct = count_result Correct evaluated;
            incorrect = count_result Incorrect evaluated;
            neutral = count_result Neutral evaluated;
            decisiveDecisions = correct + incorrect;
            accuracy =
              (if decisiveDecisions > 0
               then jmul (jdiv (Fin (real correct)) (Fin (real decisiveDecisions))) (Fin 100)
               else Fin 0);
            winRate = jmul (jdiv (Fin (real correct)) (Fin (real (length evaluated)))) (Fin 100)
        in Inr \<lparr> s_total = length decisionHistory,
                 s_pending = count_status Pending decisionHistory,
                 s_ready = count_status Ready decisionHistory,
                 s_evaluated = length evaluated,
                 s_correct = correct, s_incorrect = incorrect, s_neutral = neutral,
                 s_accuracy = accuracy, s_winRate = winRate \<rparr>)"

subsection \<open>The bucketed reports (performance analysis)\<close>

record bucket =
  b_label :: string
  b_total :: nat
  b_correct :: nat
  b_incorrect :: nat
  b_neutral :: nat
  b_accuracy :: jsnum
  b_winRate :: jsnum

definition finalizeBucket :: "bucket \<Rightarrow> bucket" where
  "finalizeBucket b =
     (let decisive = b_correct b + b_incorrect b
      in b\<lparr> b_accuracy :=
               (if decisive > 0
                then jmul (jdiv (Fin (real (b_correct b))) (Fin (real decisive))) (Fin 100)
                else Fin 0),
             b_winRate :=
               (if b_total b > 0
                then jmul (jdiv (Fin (real (b_correct b))) (Fin (real (b_total b)))) (Fin 100)
                else Fin 0) \<rparr>)"

subsection \<open>Reading a score\<close>

text \<open>The contribution of a score to the total: its value when it is finite, nothing
  otherwise.\<close>

fun finite_part :: "jsnum \<Rightarrow> real" where
  "finite_part (Fin a) = a"
| "finite_part _ = 0"

subsection \<open>The lifecycle of a decision\<close>

text \<open>One step of the lifecycle: a status stays, or moves to the next one.\<close>

definition lifecycle_step :: "status \<Rightarrow> status \<Rightarrow> bool" where
  "lifecycle_step s s' = (s' = s \<or> (s = Pending \<and> s' = Ready) \<or> (s = Ready \<and> s' = Evaluated))"

fun rank :: "status \<Rightarrow> nat" where
  "rank Pending = 0"
| "rank Ready = 1"
| "rank Evaluated = 2"

subsection \<open>Counting outcomes\<close>

text \<open>The number of decisions of a history that are evaluated with a given result.\<close>

definition evaluated_as :: "outcome \<Rightarrow> decision list \<Rightarrow> nat" where
  "evaluated_as r ds =
     length (filter (\<lambda>d. status d = Evaluated \<and> map_option e_result (evaluation d) = Some r) ds)"

text \<open>The window after an entry is pushed: the oldest entry goes once there are more than
  \<open>WINDOW_SIZE\<close>.\<close>

definition pushed_window :: "windowEntry list \<Rightarrow> windowEntry \<Rightarrow> windowEntry list" where
  "pushed_window w e = (if WINDOW_SIZE < length w + 1 then tl (w @ [e]) else w @ [e])"

text \<open>The number of bullish votes among the three of the composite.\<close>

definition bullish_votes :: "jsnum \<Rightarrow> jsnum \<Rightarrow> jsnum \<Rightarrow> nat" where
  "bullish_votes stcV cciV change =
     length (filter id [jgt stcV (Fin 50), jgt cciV (Fin 0), jgt change (Fin 0)])"

section \<open>Sample inputs\<close>

definition sample_context :: marketContext where
  "sample_context = \<lparr> totalScore = Fin 30, marketRegime = ''uptrend'', relativeVolatility = Fin 1 \<rparr>"

definition sample_payload :: "string \<Rightarrow> string \<Rightarrow> jsnum option \<Rightarrow> decisionData" where
  "sample_payload dir tf override =
     \<lparr> dd_direction = dir, dd_confidence = Fin 80, dd_currentPrice = Fin 100,
       dd_indicators = [], dd_timeframe = tf, dd_explanation = [],
       dd_marketContext = sample_context, dd_evaluationHorizon = override \<rparr>"

definition zero_override_payload :: decisionData where
  "zero_override_payload = sample_payload ''BUY'' ''5m'' (Some (Fin 0))"

definition sample_window_entry :: "bool \<Rightarrow> windowEntry" where
  "sample_window_entry ok =
     \<lparr> w_timeframe = ''1m'', w_direction = ''BUY'', w_success = ok, w_return = Fin 1,
       w_confidence = Fin 80, w_timestamp = 1 \<rparr>"

definition sample_report :: "bool option \<Rightarrow> payload" where
  "sample_report ok =
     \<lparr> p_timeframe = Some ''1m'', p_direction = Some ''BUY'', p_success = ok,
       p_return = Some (Fin 1), p_confidence = Some (Fin 80), p_timestamp = Some 1 \<rparr>"

definition sample_decision :: "string \<Rightarrow> status \<Rightarrow> decision" where
  "sample_decision dir st = (new_decision (Fin 1) 0 (sample_payload dir ''1m'' None))\<lparr>status := st\<rparr>"

definition sample_scores :: scoreSet where
  "sample_scores =
     \<lparr> sc_rsi = \<lparr> score = Fin 30, weight = Fin 1 \<rparr>,
       sc_macd = \<lparr> score = NaN, weight = Fin 1 \<rparr>,
       sc_stochRsi = \<lparr> score = Fin (- 20), weight = Fin (8 / 10) \<rparr>,
       sc_mfi = \<lparr> score = Fin 0, weight = Fin (8 / 10) \<rparr>,
       sc_trend = \<lparr> score = Fin 0, weight = Fin (12 / 10) \<rparr>,
       sc_occ = \<lparr> score = Fin 0, weight = Fin 1 \<rparr>,
       sc_stcCci = \<lparr> score = Fin 0, weight = Fin 1 \<rparr>,
       sc_divergence = \<lparr> dv_value = Some ''bullish'', dv_weight = Fin 0 \<rparr> \<rparr>"

definition sample_config :: config where
  "sample_config =
     \<lparr> tradingMode = ''conservative'', backtestThreshold = None,
       divergenceDetection = True, trendFilter = False \<rparr>"

definition flat_series :: "jsnum list" where
  "flat_series = replicate 50 (Fin 1)"

definition evaluated_sample :: "outcome \<Rightarrow> decision" where
  "evaluated_sample r =
     (sample_decision ''BUY'' Evaluated)
       \<lparr> evaluation := Some \<lparr> e_result = r, e_futurePrice = Fin 101, e_priceChange = Fin 1,
                              e_evaluatedAt = 200000 \<rparr> \<rparr>"

definition sample_bucket :: bucket where
  "sample_bucket =
     \<lparr> b_label = ''uptrend'', b_total = 5, b_correct = 1, b_incorrect = 3, b_neutral = 1,
       b_accuracy = Fin 0, b_winRate = Fin 0 \<rparr>"

definition sample_history :: "decision list" where
  "sample_history =
     [evaluated_sample Incorrect, evaluated_sample Incorrect, evaluated_sample Incorrect,
      evaluated_sample Correct, evaluated_sample Neutral, sample_decision ''SELL'' Pending]"

section \<open>Evaluating a decision\<close>

lemma jlt_neg_threshold_not_jgt:
  "jlt pc (jneg threshold) \<Longrightarrow> \<not> jgt pc threshold"
  by (cases pc) (simp_all add: threshold_def jgt_def)

text \<open>
  Claim C1. A decision in the ready state is evaluated against a future price with
  \<open>priceChange = (futurePrice - currentPrice) / currentPrice * 100\<close>, which is stored in the
  evaluation record together with the returned result. The result compares the change
  strictly with 0.1: a BUY is correct iff the change is above 0.1, incorrect iff it is
  below -0.1 and neutral otherwise; a SELL is mirrored; any other direction is neutral
  whatever the price did; a change of exactly 0.1 is neutral for every direction.
\<close>

theorem evaluateDecision_classifies:
  assumes "status d = Ready"
  shows "case evaluateDecision now d fp c of (r, d', c') \<Rightarrow>
           (let pc = jmul (jdiv (jsub fp (currentPrice d)) (currentPrice d)) (Fin 100) in
            evaluation d' =
              Some \<lparr> e_result = the r, e_futurePrice = fp, e_priceChange = pc, e_evaluatedAt = now \<rparr>
          \<and> r \<noteq> None
          \<and> (\<forall>f p. fp = Fin f \<and> currentPrice d = Fin p \<and> p \<noteq> 0 \<longrightarrow> pc = Fin ((f - p) / p * 100))
          \<and> (direction d = ''BUY'' \<longrightarrow>
                (r = Some Correct \<longleftrightarrow> jgt pc (Fin (1/10)))
              \<and> (r = Some Incorrect \<longleftrightarrow> jlt pc (Fin (- (1/10))))
              \<and> (r = Some Neutral \<longleftrightarrow> \<not> jgt pc (Fin (1/10)) \<and> \<not> jlt pc (Fin (- (1/10)))))
          \<and> (direction d = ''SELL'' \<longrightarrow>
                (r = Some Correct \<longleftrightarrow> jlt pc (Fin (- (1/10))))
              \<and> (r = Some Incorrect \<longleftrightarrow> jgt pc (Fin (1/10)))
              \<and> (r = Some Neutral \<longleftrightarrow> \<not> jgt pc (Fin (1/10)) \<and> \<not> jlt pc (Fin (- (1/10)))))
          \<and> (direction d \<noteq> ''BUY'' \<and> direction d \<noteq> ''SELL'' \<longrightarrow> r = Some Neutral)
          \<and> (pc = Fin (1/10) \<longrightarrow> r = Some Neutral))"
proof -
  define pc where "pc = jmul (jdiv (jsub fp (currentPrice d)) (currentPrice d)) (Fin 100)"
  have ev: "evaluateDecision now d fp c =
      (Some (classify (direction d) pc),
       d\<lparr> status := Evaluated,
          evaluation := Some \<lparr> e_result = classify (direction d) pc, e_futurePrice = fp,
                               e_priceChange = pc, e_evaluatedAt = now \<rparr> \<rparr>,
       (case c of None \<Rightarrow> None
        | Some w \<Rightarrow> Some (fst (SystemState_recordDecision now
                     (Some \<lparr> p_timeframe = Some (timeframe d),
                             p_direction = Some (direction d),
                             p_success = Some (classify (direction d) pc = Correct),
                             p_return = Some pc,
                             p_confidence = Some (confidence d),
                             p_timestamp = Some now \<rparr>) w))))"
    using assms by (simp add: evaluateDecision_def Let_def pc_def split: option.split)
  have formula: "\<forall>f p. fp = Fin f \<and> currentPrice d = Fin p \<and> p \<noteq> 0 \<longrightarrow> pc = Fin ((f - p) / p * 100)"
    by (simp add: pc_def jsub_def)
  have nn: "jlt pc (Fin (- (1/10))) \<Longrightarrow> \<not> jgt pc (Fin (1/10))"
    using jlt_neg_threshold_not_jgt[of pc] by (simp add: threshold_def)
  have buy: "direction d = ''BUY'' \<longrightarrow>
                (classify (direction d) pc = Correct \<longleftrightarrow> jgt pc (Fin (1/10)))
              \<and> (classify (direction d) pc = Incorrect \<longleftrightarrow> jlt pc (Fin (- (1/10))))
              \<and> (classify (direction d) pc = Neutral \<longleftrightarrow> \<not> jgt pc (Fin (1/10)) \<and> \<not> jlt pc (Fin (- (1/10))))"
    using nn by (auto simp add: classify_def threshold_def)
  have sell: "direction d = ''SELL'' \<longrightarrow>
                (classify (direction d) pc = Correct \<longleftrightarrow> jlt pc (Fin (- (1/10))))
              \<and> (classify (direction d) pc = Incorrect \<longleftrightarrow> jgt pc (Fin (1/10)))
              \<and> (classify (direction d) pc = Neutral \<longleftrightarrow> \<not> jgt pc (Fin (1/10)) \<and> \<not> jlt pc (Fin (- (1/10))))"
    using nn by (auto simp add: classify_def threshold_def)
  have other: "direction d \<noteq> ''BUY'' \<and> direction d \<noteq> ''SELL'' \<longrightarrow> classify (direction d) pc = Neutral"
    by (simp add: classify_def)
  have exact: "pc = Fin (1/10) \<longrightarrow> classify (direction d) pc = Neutral"
    by (simp add: classify_def threshold_def jgt_def)
  show ?thesis
    unfolding ev using formula buy sell other exact
    by (simp add: Let_def pc_def [symmetric])
qed

theorem evaluateDecision_classifies_witness:
  "status (sample_decision ''BUY'' Ready) = Ready \<and>
   fst (evaluateDecision 180001 (sample_decision ''BUY'' Ready) (Fin 105) None) = Some Correct \<and>
   map_option e_priceChange
     (evaluation (fst (snd (evaluateDecision 180001 (sample_decision ''BUY'' Ready) (Fin 105) None))))
     = Some (Fin 5)"
proof -
  have h: "status (sample_decision ''BUY'' Ready) = Ready"
    by (simp add: sample_decision_def)
  show ?thesis
    using h evaluateDecision_classifies
      [where d = "sample_decision ''BUY'' Ready" and now = 180001 and fp = "Fin 105" and c = None, OF h]
    by (simp add: sample_decision_def sample_payload_def new_decision_def evaluateDecision_def
          classify_def threshold_def jgt_def jsub_def Let_def)
qed

section \<open>The lifecycle\<close>

lemma evaluateDecision_not_ready:
  "status d \<noteq> Ready \<Longrightarrow> evaluateDecision now d fp c = (None, d, c)"
  by (simp add: evaluateDecision_def)

lemma evaluateDecision_ready:
  "status d = Ready \<Longrightarrow>
     fst (evaluateDecision now d fp c) \<noteq> None
     \<and> status (fst (snd (evaluateDecision now d fp c))) = Evaluated
     \<and> evaluation (fst (snd (evaluateDecision now d fp c))) \<noteq> None"
  by (simp add: evaluateDecision_def Let_def)

lemma evaluate_ready_step:
  "list_all2 (\<lambda>d d'. if status d = Ready then status d' = Evaluated else d' = d)
     h (fst (evaluate_ready now price h c))"
proof (induction h arbitrary: c)
  case Nil
  show ?case by simp
next
  case (Cons d ds)
  show ?case
  proof (cases "status d = Ready")
    case True
    obtain r d' c' where ev: "evaluateDecision now d price c = (r, d', c')"
      by (cases "evaluateDecision now d price c")
    have st: "status d' = Evaluated"
      using evaluateDecision_ready[OF True, of now price c] by (simp add: ev)
    obtain ds' c'' where rest: "evaluate_ready now price ds c' = (ds', c'')"
      by (cases "evaluate_ready now price ds c'")
    have "list_all2 (\<lambda>d d'. if status d = Ready then status d' = Evaluated else d' = d) ds ds'"
      using Cons.IH[of c'] by (simp add: rest)
    then show ?thesis using True st by (simp add: ev rest)
  next
    case False
    obtain ds' c' where rest: "evaluate_ready now price ds c = (ds', c')"
      by (cases "evaluate_ready now price ds c")
    have "list_all2 (\<lambda>d d'. if status d = Ready then status d' = Evaluated else d' = d) ds ds'"
      using Cons.IH[of c] by (simp add: rest)
    then show ?thesis using False by (simp add: rest)
  qed
qed

lemma updateDecisionStatuses_step:
  "list_all2 (\<lambda>d d'. d' = (if status d = Pending
                              \<and> jge (Fin (real_of_int (int now - int (timestamp d)))) (evaluationHorizon d)
                            then d\<lparr>status := Ready\<rparr> else d))
     h (updateDecisionStatuses now h)"
  by (simp add: updateDecisionStatuses_def isDecisionReady_def Let_def list_all2_map2 list_all2_same)

text \<open>
  Claim C2. A decision is recorded as pending, with no evaluation. Advancing changes a
  decision exactly when it is pending and the time elapsed since its timestamp is at
  least its horizon, and then only its status, to ready.
  Evaluating a ready decision returns a result and leaves it evaluated, with an evaluation
  record; evaluating a decision that is not ready returns \<open>null\<close> and changes nothing.
  Each of the two operations is one step of the lifecycle (stay, pending to ready, ready
  to evaluated); the batch entry point, which advances and then evaluates, is a chain of
  such steps. A chain of steps never lowers the rank of a status, and one step raises it
  by at most one: nothing is skipped and nothing reverses.
\<close>

theorem lifecycle_forward_only:
  "list_all2 (\<lambda>d d'. d' = (if status d = Pending
                              \<and> jge (Fin (real_of_int (int now - int (timestamp d)))) (evaluationHorizon d)
                            then d\<lparr>status := Ready\<rparr> else d))
     h (updateDecisionStatuses now h)
   \<and> (status d = Ready \<longrightarrow>
        fst (evaluateDecision now d fp c) \<noteq> None
        \<and> status (fst (snd (evaluateDecision now d fp c))) = Evaluated
        \<and> evaluation (fst (snd (evaluateDecision now d fp c))) \<noteq> None)
   \<and> (status d \<noteq> Ready \<longrightarrow> evaluateDecision now d fp c = (None, d, c))
   \<and> list_all2 (\<lambda>d d'. lifecycle_step (status d) (status d')) h (updateDecisionStatuses now h)
   \<and> lifecycle_step (status d) (status (fst (snd (evaluateDecision now d fp c))))
   \<and> list_all2 (\<lambda>d d'. lifecycle_step\<^sup>*\<^sup>* (status d) (status d'))
        h (fst (evaluatePendingDecisions now fp h c))
   \<and> (lifecycle_step\<^sup>*\<^sup>* s s' \<longrightarrow> rank s \<le> rank s')
   \<and> (lifecycle_step s s' \<longrightarrow> rank s' \<le> rank s + 1)
   \<and> status (last (recordDecision i t p h)) = Pending
   \<and> evaluation (last (recordDecision i t p h)) = None"
proof -
  have init: "status (last (recordDecision i t p h)) = Pending
              \<and> evaluation (last (recordDecision i t p h)) = None"
    by (simp add: recordDecision_def new_decision_def slice_last_def Let_def)
  have adv: "list_all2 (\<lambda>d d'. d' = (if status d = Pending
                              \<and> jge (Fin (real_of_int (int now - int (timestamp d)))) (evaluationHorizon d)
                            then d\<lparr>status := Ready\<rparr> else d))
     h (updateDecisionStatuses now h)"
    by (rule updateDecisionStatuses_step)
  have ev1: "status d = Ready \<longrightarrow>
        fst (evaluateDecision now d fp c) \<noteq> None
        \<and> status (fst (snd (evaluateDecision now d fp c))) = Evaluated
        \<and> evaluation (fst (snd (evaluateDecision now d fp c))) \<noteq> None"
    using evaluateDecision_ready[of d now fp c] by blast
  have ev2: "status d \<noteq> Ready \<longrightarrow> evaluateDecision now d fp c = (None, d, c)"
    by (simp add: evaluateDecision_not_ready)
  have adv_step: "list_all2 (\<lambda>d d'. lifecycle_step (status d) (status d')) h (updateDecisionStatuses now h)"
    by (rule list_all2_mono[OF adv]) (simp add: lifecycle_step_def)
  have ev_step: "lifecycle_step (status d) (status (fst (snd (evaluateDecision now d fp c))))"
    using ev1 ev2 by (cases "status d = Ready") (simp_all add: lifecycle_step_def)
  have ev_all: "list_all2 (\<lambda>d d'. lifecycle_step (status d) (status d'))
        (updateDecisionStatuses now h) (fst (evaluate_ready now fp (updateDecisionStatuses now h) c))"
    by (rule list_all2_mono[OF evaluate_ready_step]) (auto simp add: lifecycle_step_def split: if_splits)
  have comp: "list_all2 (\<lambda>d d'. lifecycle_step\<^sup>*\<^sup>* (status d) (status d'))
        h (fst (evaluatePendingDecisions now fp h c))"
    unfolding evaluatePendingDecisions_def
    by (rule list_all2_trans[OF _ adv_step ev_all]) auto
  have mono1: "\<And>a b. lifecycle_step a b \<Longrightarrow> rank a \<le> rank b"
    by (auto simp add: lifecycle_step_def)
  have mono: "lifecycle_step\<^sup>*\<^sup>* s s' \<longrightarrow> rank s \<le> rank s'"
  proof
    assume "lifecycle_step\<^sup>*\<^sup>* s s'"
    then show "rank s \<le> rank s'"
      by (induction rule: rtranclp_induct) (auto dest: mono1)
  qed
  have noskip: "lifecycle_step s s' \<longrightarrow> rank s' \<le> rank s + 1"
    by (auto simp add: lifecycle_step_def)
  show ?thesis using adv ev1 ev2 adv_step ev_step comp mono noskip init by blast
qed

theorem lifecycle_forward_only_witness:
  "status (sample_decision ''BUY'' Ready) = Ready
   \<and> status (fst (snd (evaluateDecision 180001 (sample_decision ''BUY'' Ready) (Fin 105) None)))
       = Evaluated
   \<and> status (sample_decision ''BUY'' Pending) \<noteq> Ready
   \<and> evaluateDecision 180001 (sample_decision ''BUY'' Pending) (Fin 105) None
       = (None, sample_decision ''BUY'' Pending, None)
   \<and> map status (updateDecisionStatuses 179999 [sample_decision ''BUY'' Pending]) = [Pending]
   \<and> map status (updateDecisionStatuses 180000 [sample_decision ''BUY'' Pending]) = [Ready]
   \<and> map status (fst (evaluatePendingDecisions 180001 (Fin 105) [sample_decision ''BUY'' Pending] None))
       = [Evaluated]
   \<and> lifecycle_step Pending Ready \<and> lifecycle_step\<^sup>*\<^sup>* Pending Ready
   \<and> rank Pending \<le> rank Ready \<and> rank Ready \<le> rank Pending + 1"
proof -
  have step: "lifecycle_step Pending Ready" by (simp add: lifecycle_step_def)
  then have steps: "lifecycle_step\<^sup>*\<^sup>* Pending Ready" by (rule r_into_rtranclp)
  show ?thesis
    using step steps
      lifecycle_forward_only [where d = "sample_decision ''BUY'' Ready" and now = 180001
        and fp = "Fin 105" and c = None and h = "[]" and s = Pending and s' = Ready]
      lifecycle_forward_only [where d = "sample_decision ''BUY'' Pending" and now = 180001
        and fp = "Fin 105" and c = None and h = "[]" and s = Pending and s' = Ready]
    by (simp add: sample_decision_def sample_payload_def new_decision_def getEvaluationHorizon_def
          updateDecisionStatuses_def isDecisionReady_def evaluatePendingDecisions_def
          evaluateDecision_def jge_def jle_def jeq_def Let_def)
qed

section \<open>The bounded history\<close>

lemma slice_last_append: "slice_last k (slice_last k xs @ ys) = slice_last k (xs @ ys)"
proof (cases "length xs \<le> k")
  case True
  then show ?thesis by (simp add: slice_last_def)
next
  case False
  then have "length xs + length ys - (length xs - k + k) + (length xs - k) = length xs + length ys - k"
    by simp
  with False show ?thesis by (auto simp add: slice_last_def)
qed

lemma recordDecision_slice:
  "recordDecision i t p h = slice_last 1000 (h @ [new_decision i t p])"
  by (simp add: recordDecision_def Let_def slice_last_def)

lemma record_all_slice:
  "record_all calls (slice_last 1000 h)
     = slice_last 1000 (h @ map (\<lambda>(i, t, p). new_decision i t p) calls)"
proof (induction calls arbitrary: h)
  case Nil
  show ?case by (simp add: slice_last_def)
next
  case (Cons c calls)
  obtain i t p where c: "c = (i, t, p)" by (cases c)
  have "record_all (c # calls) (slice_last 1000 h)
          = record_all calls (slice_last 1000 (slice_last 1000 h @ [new_decision i t p]))"
    by (simp add: c recordDecision_slice)
  also have "\<dots> = record_all calls (slice_last 1000 (h @ [new_decision i t p]))"
    by (simp only: slice_last_append)
  also have "\<dots> = slice_last 1000 ((h @ [new_decision i t p]) @ map (\<lambda>(i, t, p). new_decision i t p) calls)"
    by (rule Cons.IH)
  finally show ?case by (simp add: c)
qed

text \<open>
  Claim C5. Starting from the empty history, after any sequence of \<open>recordDecision\<close> calls
  the history holds at most 1000 decisions, and they are the decisions of the last 1000
  calls (all of them when there were fewer) in the order of the calls. A single call on
  any history appends the new decision and keeps the last 1000 entries, so the bound holds
  after every call; the function has no failing branch.
\<close>

theorem history_bounded_fifo:
  "length (record_all calls []) \<le> 1000
   \<and> record_all calls [] = drop (length calls - 1000) (map (\<lambda>(i, t, p). new_decision i t p) calls)
   \<and> length (recordDecision i t p h) \<le> 1000
   \<and> recordDecision i t p h = drop (length h + 1 - 1000) (h @ [new_decision i t p])"
proof -
  have "record_all calls (slice_last 1000 []) = slice_last 1000 ([] @ map (\<lambda>(i, t, p). new_decision i t p) calls)"
    by (rule record_all_slice)
  then have eq: "record_all calls [] = drop (length calls - 1000) (map (\<lambda>(i, t, p). new_decision i t p) calls)"
    by (simp add: slice_last_def)
  have one: "recordDecision i t p h = drop (length h + 1 - 1000) (h @ [new_decision i t p])"
    by (simp add: recordDecision_slice slice_last_def)
  have b1: "length (drop (length calls - 1000) (map (\<lambda>(i, t, p). new_decision i t p) calls)) \<le> 1000"
    by (simp | arith)+
  have b2: "length (drop (length h + 1 - 1000) (h @ [new_decision i t p])) \<le> 1000"
    by (simp | arith)+
  show ?thesis unfolding eq one using b1 b2 by simp
qed

theorem history_bounded_fifo_witness:
  "record_all [(Fin 1, 10, sample_payload ''BUY'' ''1m'' None),
               (Fin 2, 20, sample_payload ''SELL'' ''5m'' None)] []
     = [new_decision (Fin 1) 10 (sample_payload ''BUY'' ''1m'' None),
        new_decision (Fin 2) 20 (sample_payload ''SELL'' ''5m'' None)]
   \<and> recordDecision (Fin 3) 30 (sample_payload ''BUY'' ''1m'' None)
        (replicate 1000 (sample_decision ''SELL'' Pending))
     = replicate 999 (sample_decision ''SELL'' Pending)
       @ [new_decision (Fin 3) 30 (sample_payload ''BUY'' ''1m'' None)]"
  using history_bounded_fifo
      [where calls = "[(Fin 1, 10, sample_payload ''BUY'' ''1m'' None),
                       (Fin 2, 20, sample_payload ''SELL'' ''5m'' None)]"
         and i = "Fin 3" and t = 30 and p = "sample_payload ''BUY'' ''1m'' None"
         and h = "replicate 1000 (sample_decision ''SELL'' Pending)"]
  by simp

section \<open>The evaluation horizon\<close>

lemma last_recordDecision: "last (recordDecision i t p h) = new_decision i t p"
  by (simp add: recordDecision_def Let_def slice_last_def)

text \<open>
  Claim C4, as stated, fails: an override of 0 is provided, and the horizon stored for
  timeframe \<open>5m\<close> is 900000, not 0. The lookup of a timeframe outside the table is not
  always 300000 either: for \<open>toString\<close>, which every object inherits, it is \<open>NaN\<close>.
\<close>

theorem horizon_override_counterexample:
  "dd_evaluationHorizon zero_override_payload = Some (Fin 0)
   \<and> evaluationHorizon (last (recordDecision (Fin 1) 0 zero_override_payload [])) = Fin 900000
   \<and> evaluationHorizon (last (recordDecision (Fin 1) 0 zero_override_payload [])) \<noteq> Fin 0
   \<and> evaluationHorizon
        (last (recordDecision (Fin 1) 0 (sample_payload ''BUY'' ''toString'' None) [])) = NaN"
  by (simp add: zero_override_payload_def sample_payload_def recordDecision_def new_decision_def
        getEvaluationHorizon_def object_prototype_keys_def truthy_def Let_def)

text \<open>
  Claim C4, amended. The horizon stored with a recorded decision is the override when one
  is provided and is neither 0 nor \<open>NaN\<close>, whatever the timeframe. Otherwise (no
  override, or an override of 0 or \<open>NaN\<close>) it is the lookup of the timeframe: 180000 for
  \<open>1m\<close>, 900000 for \<open>5m\<close>, 2700000 for \<open>15m\<close>, 10800000 for \<open>1h\<close> and 300000 for any
  other timeframe that is not the name of a property inherited from \<open>Object.prototype\<close>.
\<close>

theorem recordDecision_horizon:
  "(dd_evaluationHorizon p = Some v \<and> v \<noteq> Fin 0 \<and> v \<noteq> NaN \<longrightarrow>
      evaluationHorizon (last (recordDecision i t p h)) = v)
   \<and> ((dd_evaluationHorizon p = None \<or> dd_evaluationHorizon p = Some (Fin 0)
         \<or> dd_evaluationHorizon p = Some NaN)
        \<and> dd_timeframe p \<notin> set object_prototype_keys \<longrightarrow>
      evaluationHorizon (last (recordDecision i t p h)) =
        (if dd_timeframe p = ''1m'' then Fin 180000
         else if dd_timeframe p = ''5m'' then Fin 900000
         else if dd_timeframe p = ''15m'' then Fin 2700000
         else if dd_timeframe p = ''1h'' then Fin 10800000
         else Fin 300000))"
proof (intro conjI impI)
  assume "dd_evaluationHorizon p = Some v \<and> v \<noteq> Fin 0 \<and> v \<noteq> NaN"
  then show "evaluationHorizon (last (recordDecision i t p h)) = v"
    by (simp add: last_recordDecision new_decision_def truthy_def Let_def)
next
  assume a: "(dd_evaluationHorizon p = None \<or> dd_evaluationHorizon p = Some (Fin 0)
               \<or> dd_evaluationHorizon p = Some NaN)
             \<and> dd_timeframe p \<notin> set object_prototype_keys"
  then have tf: "dd_timeframe p \<notin> set object_prototype_keys" by simp
  have lookup: "jmul (jmul (getEvaluationHorizon (dd_timeframe p)) (Fin 60)) (Fin 1000) =
        (if dd_timeframe p = ''1m'' then Fin 180000
         else if dd_timeframe p = ''5m'' then Fin 900000
         else if dd_timeframe p = ''15m'' then Fin 2700000
         else if dd_timeframe p = ''1h'' then Fin 10800000
         else Fin 300000)"
    using tf by (simp add: getEvaluationHorizon_def)
  from a have "dd_evaluationHorizon p = None \<or> dd_evaluationHorizon p = Some (Fin 0)
               \<or> dd_evaluationHorizon p = Some NaN" by simp
  then have "evaluationHorizon (last (recordDecision i t p h))
               = jmul (jmul (getEvaluationHorizon (dd_timeframe p)) (Fin 60)) (Fin 1000)"
    by (auto simp add: last_recordDecision new_decision_def truthy_def Let_def)
  then show "evaluationHorizon (last (recordDecision i t p h)) =
        (if dd_timeframe p = ''1m'' then Fin 180000
         else if dd_timeframe p = ''5m'' then Fin 900000
         else if dd_timeframe p = ''15m'' then Fin 2700000
         else if dd_timeframe p = ''1h'' then Fin 10800000
         else Fin 300000)"
    by (simp only: lookup)
qed

theorem recordDecision_horizon_witness:
  "''5m'' \<notin> set object_prototype_keys
   \<and> evaluationHorizon (last (recordDecision (Fin 1) 0 (sample_payload ''BUY'' ''5m'' None) []))
       = Fin 900000
   \<and> evaluationHorizon
        (last (recordDecision (Fin 1) 0 (sample_payload ''BUY'' ''5m'' (Some (Fin 60000))) []))
       = Fin 60000
   \<and> evaluationHorizon
        (last (recordDecision (Fin 1) 0 (sample_payload ''BUY'' ''toString'' (Some (Fin 60000))) []))
       = Fin 60000
   \<and> evaluationHorizon
        (last (recordDecision (Fin 1) 0 (sample_payload ''BUY'' ''4h'' (Some (Fin 0))) []))
       = Fin 300000"
  using recordDecision_horizon [where p = "sample_payload ''BUY'' ''5m'' None" and i = "Fin 1"
          and t = 0 and h = "[]" and v = "Fin 60000"]
        recordDecision_horizon [where p = "sample_payload ''BUY'' ''5m'' (Some (Fin 60000))"
          and i = "Fin 1" and t = 0 and h = "[]" and v = "Fin 60000"]
        recordDecision_horizon [where p = "sample_payload ''BUY'' ''toString'' (Some (Fin 60000))"
          and i = "Fin 1" and t = 0 and h = "[]" and v = "Fin 60000"]
        recordDecision_horizon [where p = "sample_payload ''BUY'' ''4h'' (Some (Fin 0))"
          and i = "Fin 1" and t = 0 and h = "[]" and v = "Fin 60000"]
  by (simp add: sample_payload_def object_prototype_keys_def)

section \<open>The total score\<close>

lemma add_if_finite_Fin: "add_if_finite (Some v) (Fin a) = Fin (a + finite_part v)"
  by (cases v) (simp_all add: add_if_finite_def)

lemma add_if_finite_None: "add_if_finite None x = x"
  by (simp add: add_if_finite_def)

lemma summed_scores:
  "fold add_if_finite (score_values s) (Fin 0) =
     Fin (finite_part (score (sc_rsi s)) + finite_part (score (sc_macd s))
          + finite_part (score (sc_stochRsi s)) + finite_part (score (sc_mfi s))
          + finite_part (score (sc_trend s)) + finite_part (score (sc_occ s))
          + finite_part (score (sc_stcCci s)))"
  by (simp add: score_values_def add_if_finite_Fin add_if_finite_None)

text \<open>
  Claim C3. The total score is the sum of the finite scores of the seven indicators, with
  no weight applied, multiplied by the factor of the trading mode (0.8 for aggressive, 1.5
  for conservative, 1 otherwise), plus 20 for a bullish or minus 20 for a bearish
  divergence when divergence detection is on; the adjustment is added after the scaling
  and is not scaled. The scores that \<open>calculateIndicatorScores\<close> builds carry the weights
  of the table, and the total does not change when the weights do.
\<close>

theorem totalScore_unweighted_scaled_adjusted:
  "calculateTotalScore s cfg =
     Fin ((if tradingMode cfg = ''aggressive'' then 8 / 10
           else if tradingMode cfg = ''conservative'' then 15 / 10 else 1)
          * (finite_part (score (sc_rsi s)) + finite_part (score (sc_macd s))
             + finite_part (score (sc_stochRsi s)) + finite_part (score (sc_mfi s))
             + finite_part (score (sc_trend s)) + finite_part (score (sc_occ s))
             + finite_part (score (sc_stcCci s)))
          + (if divergenceDetection cfg \<and> dv_value (sc_divergence s) = Some ''bullish'' then 20
             else if divergenceDetection cfg \<and> dv_value (sc_divergence s) = Some ''bearish'' then - 20
             else 0))
   \<and> map weight [sc_rsi (calculateIndicatorScores ind cfg), sc_macd (calculateIndicatorScores ind cfg),
                  sc_stochRsi (calculateIndicatorScores ind cfg), sc_mfi (calculateIndicatorScores ind cfg),
                  sc_trend (calculateIndicatorScores ind cfg), sc_occ (calculateIndicatorScores ind cfg),
                  sc_stcCci (calculateIndicatorScores ind cfg)]
       = [Fin 1, Fin 1, Fin (8 / 10), Fin (8 / 10), Fin (12 / 10), Fin 1, Fin 1]
   \<and> calculateTotalScore
        (s\<lparr> sc_rsi := (sc_rsi s)\<lparr>weight := w1\<rparr>, sc_macd := (sc_macd s)\<lparr>weight := w2\<rparr>,
            sc_stochRsi := (sc_stochRsi s)\<lparr>weight := w3\<rparr>, sc_mfi := (sc_mfi s)\<lparr>weight := w4\<rparr>,
            sc_trend := (sc_trend s)\<lparr>weight := w5\<rparr>, sc_occ := (sc_occ s)\<lparr>weight := w6\<rparr>,
            sc_stcCci := (sc_stcCci s)\<lparr>weight := w7\<rparr> \<rparr>) cfg
       = calculateTotalScore s cfg"
proof -
  have total: "\<And>s. calculateTotalScore s cfg =
     Fin ((if tradingMode cfg = ''aggressive'' then 8 / 10
           else if tradingMode cfg = ''conservative'' then 15 / 10 else 1)
          * (finite_part (score (sc_rsi s)) + finite_part (score (sc_macd s))
             + finite_part (score (sc_stochRsi s)) + finite_part (score (sc_mfi s))
             + finite_part (score (sc_trend s)) + finite_part (score (sc_occ s))
             + finite_part (score (sc_stcCci s)))
          + (if divergenceDetection cfg \<and> dv_value (sc_divergence s) = Some ''bullish'' then 20
             else if divergenceDetection cfg \<and> dv_value (sc_divergence s) = Some ''bearish'' then - 20
             else 0))"
    by (simp add: calculateTotalScore_def summed_scores adjustScoreByMode_def jsub_def Let_def)
  have weights: "map weight [sc_rsi (calculateIndicatorScores ind cfg), sc_macd (calculateIndicatorScores ind cfg),
                  sc_stochRsi (calculateIndicatorScores ind cfg), sc_mfi (calculateIndicatorScores ind cfg),
                  sc_trend (calculateIndicatorScores ind cfg), sc_occ (calculateIndicatorScores ind cfg),
                  sc_stcCci (calculateIndicatorScores ind cfg)]
       = [Fin 1, Fin 1, Fin (8 / 10), Fin (8 / 10), Fin (12 / 10), Fin 1, Fin 1]"
    by (simp add: calculateIndicatorScores_def INDICATOR_WEIGHTS_def Let_def)
  show ?thesis
    unfolding total using weights by simp
qed

theorem totalScore_unweighted_scaled_adjusted_witness:
  "calculateTotalScore sample_scores sample_config = Fin 35"
  using totalScore_unweighted_scaled_adjusted [where s = sample_scores and cfg = sample_config]
  by (simp add: sample_scores_def sample_config_def)

section \<open>Invalid payloads of the consumer\<close>

text \<open>
  Claim C9. \<open>SystemState.recordDecision\<close> called with no payload, or with a payload whose
  \<open>success\<close> field is missing, returns the window as it was and prints one warning and
  nothing else; it has no failing branch. With the field present the entry is pushed (and
  the oldest entry dropped beyond 50) and the line printed is a log line.
\<close>

theorem invalid_payload_is_noop:
  "SystemState_recordDecision now None w = (w, [ConsoleWarn])
   \<and> (p_success p = None \<longrightarrow> SystemState_recordDecision now (Some p) w = (w, [ConsoleWarn]))
   \<and> (p_success p = Some b \<longrightarrow>
        w_success (stored_entry now p b) = b
        \<and> SystemState_recordDecision now (Some p) w
            = (if WINDOW_SIZE < length w + 1 then tl (w @ [stored_entry now p b])
               else w @ [stored_entry now p b], [ConsoleLog]))"
  by (simp add: SystemState_recordDecision_def stored_entry_def Let_def)

theorem invalid_payload_is_noop_witness:
  "p_success (sample_report None) = None
   \<and> SystemState_recordDecision 5 (Some (sample_report None)) [sample_window_entry True]
       = ([sample_window_entry True], [ConsoleWarn])
   \<and> p_success (sample_report (Some False)) = Some False
   \<and> SystemState_recordDecision 5 (Some (sample_report (Some False))) [sample_window_entry True]
       = ([sample_window_entry True, sample_window_entry False], [ConsoleLog])"
  using invalid_payload_is_noop [where p = "sample_report None" and now = 5
          and w = "[sample_window_entry True]"]
        invalid_payload_is_noop [where p = "sample_report (Some False)" and b = False and now = 5
          and w = "[sample_window_entry True]"]
  by (simp add: sample_report_def sample_window_entry_def stored_entry_def
        WINDOW_SIZE_def str_or_def num_or_def truthy_def Let_def)

section \<open>The relative strength index\<close>

lemma fold_fixed: "(\<And>i. i \<in> set is \<Longrightarrow> f i a = a) \<Longrightarrow> fold f is a = a"
  by (induction "is") simp_all

lemma flat_nth: "\<forall>x\<in>set prices. x = Fin c \<Longrightarrow> i < length prices \<Longrightarrow> js_nth prices i = Fin c"
  by (simp add: js_nth_def)

lemma flat_seed_step:
  assumes "\<forall>x\<in>set prices. x = Fin c" "i < length prices"
  shows "rsi_seed_step prices i (Fin 0, Fin 0) = (Fin 0, Fin 0)"
proof -
  have "js_nth prices i = Fin c" "js_nth prices (i - 1) = Fin c"
    using assms by (simp_all add: flat_nth)
  then show ?thesis by (simp add: rsi_seed_step_def jsub_def jgt_def)
qed

lemma flat_smooth_step:
  assumes "\<forall>x\<in>set prices. x = Fin c" "i < length prices" "0 < period"
  shows "rsi_smooth_step prices period i (Fin 0, Fin 0) = (Fin 0, Fin 0)"
proof -
  have "js_nth prices i = Fin c" "js_nth prices (i - 1) = Fin c"
    using assms by (simp_all add: flat_nth)
  then show ?thesis using assms(3) by (simp add: rsi_smooth_step_def jsub_def jgt_def Let_def)
qed

text \<open>
  Claim C7. On a series of at least \<open>period + 1\<close> closes that are all the same finite
  number, \<open>calculateRSI\<close> returns 100: gains and losses stay 0 through both loops and the
  test \<open>avgLoss === 0\<close> succeeds. On a series of fewer than \<open>period + 1\<close> closes it returns
  50. The engine calls it with period 14; the statement holds for every positive period.
\<close>

theorem rsi_flat_is_100:
  "(0 < period \<and> period + 1 \<le> length prices \<and> (\<forall>x\<in>set prices. x = Fin c)
      \<longrightarrow> calculateRSI prices period = Fin 100)
   \<and> (length prices < period + 1 \<longrightarrow> calculateRSI prices period = Fin 50)"
proof (intro conjI impI)
  assume a: "0 < period \<and> period + 1 \<le> length prices \<and> (\<forall>x\<in>set prices. x = Fin c)"
  then have flat: "\<forall>x\<in>set prices. x = Fin c" and pos: "0 < period" and len: "period + 1 \<le> length prices"
    by simp_all
  have seed: "fold (rsi_seed_step prices) [1 ..< period + 1] (Fin 0, Fin 0) = (Fin 0, Fin 0)"
  proof (rule fold_fixed)
    fix i assume "i \<in> set [1 ..< period + 1]"
    then have "i < period + 1" by (simp only: set_upt atLeastLessThan_iff)
    with len have "i < length prices" by linarith
    then show "rsi_seed_step prices i (Fin 0, Fin 0) = (Fin 0, Fin 0)"
      using flat by (rule flat_seed_step[rotated])
  qed
  have smooth: "fold (rsi_smooth_step prices period) [period + 1 ..< length prices] (Fin 0, Fin 0) = (Fin 0, Fin 0)"
  proof (rule fold_fixed)
    fix i assume "i \<in> set [period + 1 ..< length prices]"
    then have "i < length prices" by (simp only: set_upt atLeastLessThan_iff)
    then show "rsi_smooth_step prices period i (Fin 0, Fin 0) = (Fin 0, Fin 0)"
      using flat pos by (simp add: flat_smooth_step)
  qed
  have seed': "fold (rsi_seed_step prices) [Suc 0 ..< Suc period] (Fin 0, Fin 0) = (Fin 0, Fin 0)"
    using seed by (simp del: upt_Suc)
  have smooth': "fold (rsi_smooth_step prices period) [Suc period ..< length prices] (Fin 0, Fin 0) = (Fin 0, Fin 0)"
    using smooth by (simp del: upt_Suc)
  show "calculateRSI prices period = Fin 100"
    using len pos by (simp add: calculateRSI_def seed' smooth' jeq_def del: upt_Suc)
next
  assume "length prices < period + 1"
  then show "calculateRSI prices period = Fin 50"
    by (simp add: calculateRSI_def)
qed

theorem rsi_flat_is_100_witness:
  "calculateRSI (replicate 15 (Fin 100)) 14 = Fin 100
   \<and> calculateRSI (replicate 14 (Fin 100)) 14 = Fin 50"
  using rsi_flat_is_100 [where period = 14 and prices = "replicate 15 (Fin 100)" and c = 100]
        rsi_flat_is_100 [where period = 14 and prices = "replicate 14 (Fin 100)" and c = 100]
  by simp

section \<open>The composite of trend cycle and channel index\<close>

lemma recent_closes:
  assumes "50 \<le> length closes"
  shows "js_last (slice_last 5 closes) = closes ! (length closes - 1)"
    and "js_nth (slice_last 5 closes) 0 = closes ! (length closes - 5)"
proof -
  have ne: "closes \<noteq> []" using assms by auto
  have d: "drop (length closes - 5) closes \<noteq> []" using assms by simp
  show "js_last (slice_last 5 closes) = closes ! (length closes - 1)"
    using assms ne d by (simp add: js_last_def slice_last_def last_conv_nth)
  show "js_nth (slice_last 5 closes) 0 = closes ! (length closes - 5)"
    using assms by (simp add: js_nth_def slice_last_def)
qed

text \<open>
  Claim C6. With at least 50 closes, \<open>calculateSTCCCI\<close> counts three votes (the trend cycle
  above 50, the channel index above 0, the change over the last five closes above 0). Two
  or three bullish votes give score 30 and signal BUY, none or one give score -30 and
  signal SELL; the score is never 0 and the signal never NEUTRAL. With fewer than 50
  closes it returns the record with value 0, signal NEUTRAL and strength 0.
\<close>

theorem stcCci_is_binary:
  "(50 \<le> length closes \<longrightarrow>
      (let stcV = calculateSchaffTrendCycle closes 23 50 10;
           cciV = calculateCCI highs lows closes period;
           change = jmul (jdiv (jsub (closes ! (length closes - 1)) (closes ! (length closes - 5)))
                               (closes ! (length closes - 5))) (Fin 100);
           votes = bullish_votes stcV cciV change;
           r = calculateSTCCCI highs lows closes period
       in (2 \<le> votes \<longrightarrow> r_value r = Fin 30 \<and> r_signal r = ''BUY'' \<and> r_strength r = Fin 30)
        \<and> (votes \<le> 1 \<longrightarrow> r_value r = Fin (- 30) \<and> r_signal r = ''SELL'' \<and> r_strength r = Fin 30)
        \<and> r_value r \<noteq> Fin 0 \<and> r_signal r \<noteq> ''NEUTRAL''
        \<and> r_stc r = Some stcV \<and> r_cci r = Some cciV \<and> r_priceChange r = Some change))
   \<and> (length closes < 50 \<longrightarrow>
        calculateSTCCCI highs lows closes period
          = \<lparr> r_value = Fin 0, r_signal = ''NEUTRAL'', r_strength = Fin 0,
              r_stc = None, r_cci = None, r_priceChange = None \<rparr>)"
proof (intro conjI impI)
  assume len: "50 \<le> length closes"
  show "let stcV = calculateSchaffTrendCycle closes 23 50 10;
           cciV = calculateCCI highs lows closes period;
           change = jmul (jdiv (jsub (closes ! (length closes - 1)) (closes ! (length closes - 5)))
                               (closes ! (length closes - 5))) (Fin 100);
           votes = bullish_votes stcV cciV change;
           r = calculateSTCCCI highs lows closes period
       in (2 \<le> votes \<longrightarrow> r_value r = Fin 30 \<and> r_signal r = ''BUY'' \<and> r_strength r = Fin 30)
        \<and> (votes \<le> 1 \<longrightarrow> r_value r = Fin (- 30) \<and> r_signal r = ''SELL'' \<and> r_strength r = Fin 30)
        \<and> r_value r \<noteq> Fin 0 \<and> r_signal r \<noteq> ''NEUTRAL''
        \<and> r_stc r = Some stcV \<and> r_cci r = Some cciV \<and> r_priceChange r = Some change"
    using len
    by (simp add: calculateSTCCCI_def recent_closes[OF len] bullish_votes_def Let_def)
next
  assume "length closes < 50"
  then show "calculateSTCCCI highs lows closes period
          = \<lparr> r_value = Fin 0, r_signal = ''NEUTRAL'', r_strength = Fin 0,
              r_stc = None, r_cci = None, r_priceChange = None \<rparr>"
    by (simp add: calculateSTCCCI_def)
qed

theorem stcCci_is_binary_witness:
  "50 \<le> length flat_series
   \<and> r_value (calculateSTCCCI flat_series flat_series flat_series 20) = Fin (- 30)
   \<and> r_signal (calculateSTCCCI flat_series flat_series flat_series 20) = ''SELL''
   \<and> length (take 49 flat_series) < 50
   \<and> r_signal (calculateSTCCCI flat_series flat_series (take 49 flat_series) 20) = ''NEUTRAL''"
proof -
  have len: "50 \<le> length flat_series" by (simp add: flat_series_def)
  have short: "length (take 49 flat_series) < 50" by simp
  have votes:
    "bullish_votes (calculateSchaffTrendCycle flat_series 23 50 10)
       (calculateCCI flat_series flat_series flat_series 20)
       (jmul (jdiv (jsub (flat_series ! (length flat_series - 1))
                         (flat_series ! (length flat_series - 5)))
                   (flat_series ! (length flat_series - 5))) (Fin 100)) \<le> 1"
    by code_simp
  show ?thesis
    using len short votes
      stcCci_is_binary [where closes = flat_series and highs = flat_series and lows = flat_series
        and period = 20]
      stcCci_is_binary [where closes = "take 49 flat_series" and highs = flat_series
        and lows = flat_series and period = 20]
    by (simp add: Let_def)
qed

section \<open>Accuracy and win rate\<close>

lemma count_result_evaluated:
  "count_result r (filter (\<lambda>d. status d = Evaluated) h) = evaluated_as r h"
  by (simp add: count_result_def evaluated_as_def conj_commute)

lemma evaluated_split:
  "list_all (\<lambda>d. status d = Evaluated \<longrightarrow> evaluation d \<noteq> None) h \<Longrightarrow>
   count_status Evaluated h = evaluated_as Correct h + evaluated_as Incorrect h + evaluated_as Neutral h"
proof (induction h)
  case Nil
  show ?case by (simp add: count_status_def evaluated_as_def)
next
  case (Cons d ds)
  then have ih: "count_status Evaluated ds = evaluated_as Correct ds + evaluated_as Incorrect ds + evaluated_as Neutral ds"
    by simp
  show ?case
  proof (cases "status d = Evaluated")
    case True
    with Cons.prems obtain e where e: "evaluation d = Some e" by auto
    show ?thesis using True e ih
      by (cases "e_result e") (simp_all add: count_status_def evaluated_as_def)
  next
    case False
    then show ?thesis using ih by (simp add: count_status_def evaluated_as_def)
  qed
qed

lemma no_null_evaluation:
  "list_all (\<lambda>d. status d = Evaluated \<longrightarrow> evaluation d \<noteq> None) h \<Longrightarrow>
   \<not> list_ex (\<lambda>d. evaluation d = None) (filter (\<lambda>d. status d = Evaluated) h)"
  by (auto simp add: list_all_iff list_ex_iff)

text \<open>
  Claim C8. On a history in which every evaluated decision carries its evaluation,
  \<open>getPerformanceStats\<close> returns the counts of the evaluated decisions by result, the
  accuracy \<open>correct / (correct + incorrect) * 100\<close> (0 when there is no decisive outcome)
  and the win rate \<open>correct / evaluated * 100\<close> (0 when nothing is evaluated), where
  \<open>evaluated = correct + incorrect + neutral\<close>: neutral outcomes are in the denominator of
  the win rate and not in that of the accuracy. \<open>finalizeBucket\<close> of the bucketed reports
  computes the accuracy by the same formula, and the win rate over the bucket's total.
\<close>

theorem stats_accuracy_and_winRate:
  "(list_all (\<lambda>d. status d = Evaluated \<longrightarrow> evaluation d \<noteq> None) h \<longrightarrow>
      (\<exists>st. getPerformanceStats h = Inr st
         \<and> s_evaluated st = count_status Evaluated h
         \<and> s_correct st = evaluated_as Correct h
         \<and> s_incorrect st = evaluated_as Incorrect h
         \<and> s_neutral st = evaluated_as Neutral h
         \<and> s_evaluated st = s_correct st + s_incorrect st + s_neutral st
         \<and> s_accuracy st =
             (if 0 < s_correct st + s_incorrect st
              then Fin (real (s_correct st) / real (s_correct st + s_incorrect st) * 100)
              else Fin 0)
         \<and> s_winRate st =
             (if 0 < s_evaluated st
              then Fin (real (s_correct st) / real (s_evaluated st) * 100)
              else Fin 0)))
   \<and> b_accuracy (finalizeBucket b) =
        (if 0 < b_correct b + b_incorrect b
         then Fin (real (b_correct b) / real (b_correct b + b_incorrect b) * 100)
         else Fin 0)
   \<and> b_winRate (finalizeBucket b) =
        (if 0 < b_total b then Fin (real (b_correct b) / real (b_total b) * 100) else Fin 0)"
proof (intro conjI impI)
  assume inv: "list_all (\<lambda>d. status d = Evaluated \<longrightarrow> evaluation d \<noteq> None) h"
  let ?ev = "filter (\<lambda>d. status d = Evaluated) h"
  have len: "length ?ev = count_status Evaluated h" by (simp add: count_status_def)
  have split: "count_status Evaluated h = evaluated_as Correct h + evaluated_as Incorrect h + evaluated_as Neutral h"
    using inv by (rule evaluated_split)
  have ok: "\<not> list_ex (\<lambda>d. evaluation d = None) ?ev"
    using inv by (rule no_null_evaluation)
  show "\<exists>st. getPerformanceStats h = Inr st
         \<and> s_evaluated st = count_status Evaluated h
         \<and> s_correct st = evaluated_as Correct h
         \<and> s_incorrect st = evaluated_as Incorrect h
         \<and> s_neutral st = evaluated_as Neutral h
         \<and> s_evaluated st = s_correct st + s_incorrect st + s_neutral st
         \<and> s_accuracy st =
             (if 0 < s_correct st + s_incorrect st
              then Fin (real (s_correct st) / real (s_correct st + s_incorrect st) * 100)
              else Fin 0)
         \<and> s_winRate st =
             (if 0 < s_evaluated st
              then Fin (real (s_correct st) / real (s_evaluated st) * 100)
              else Fin 0)"
  proof (cases "count_status Evaluated h = 0")
    case True
    then have z: "evaluated_as Correct h = 0" "evaluated_as Incorrect h = 0" "evaluated_as Neutral h = 0"
      using split by simp_all
    have empty: "?ev = []" using True len by simp
    show ?thesis using True z
      by (simp add: getPerformanceStats_def Let_def empty)
  next
    case False
    then have ne: "?ev \<noteq> []" using len by auto
    have val: "getPerformanceStats h =
        Inr \<lparr> s_total = length h,
              s_pending = count_status Pending h,
              s_ready = count_status Ready h,
              s_evaluated = count_status Evaluated h,
              s_correct = evaluated_as Correct h,
              s_incorrect = evaluated_as Incorrect h,
              s_neutral = evaluated_as Neutral h,
              s_accuracy =
                (if 0 < evaluated_as Correct h + evaluated_as Incorrect h
                 then jmul (jdiv (Fin (real (evaluated_as Correct h)))
                                 (Fin (real (evaluated_as Correct h + evaluated_as Incorrect h)))) (Fin 100)
                 else Fin 0),
              s_winRate = jmul (jdiv (Fin (real (evaluated_as Correct h)))
                                     (Fin (real (count_status Evaluated h)))) (Fin 100) \<rparr>"
      unfolding getPerformanceStats_def Let_def count_result_evaluated len
      using ne ok False by simp
    have acc: "(if 0 < evaluated_as Correct h + evaluated_as Incorrect h
                 then jmul (jdiv (Fin (real (evaluated_as Correct h)))
                                 (Fin (real (evaluated_as Correct h + evaluated_as Incorrect h)))) (Fin 100)
                 else Fin 0)
             = (if 0 < evaluated_as Correct h + evaluated_as Incorrect h
                then Fin (real (evaluated_as Correct h)
                          / real (evaluated_as Correct h + evaluated_as Incorrect h) * 100)
                else Fin 0)"
      by simp
    have win: "jmul (jdiv (Fin (real (evaluated_as Correct h)))
                          (Fin (real (count_status Evaluated h)))) (Fin 100)
             = Fin (real (evaluated_as Correct h) / real (count_status Evaluated h) * 100)"
      using False by simp
    show ?thesis
      unfolding val acc win using False split by simp
  qed
next
  show "b_accuracy (finalizeBucket b) =
        (if 0 < b_correct b + b_incorrect b
         then Fin (real (b_correct b) / real (b_correct b + b_incorrect b) * 100)
         else Fin 0)"
    by (simp add: finalizeBucket_def Let_def)
next
  show "b_winRate (finalizeBucket b) =
        (if 0 < b_total b then Fin (real (b_correct b) / real (b_total b) * 100) else Fin 0)"
    by (simp add: finalizeBucket_def Let_def)
qed

theorem stats_accuracy_and_winRate_witness:
  "list_all (\<lambda>d. status d = Evaluated \<longrightarrow> evaluation d \<noteq> None) sample_history
   \<and> map_sum id s_accuracy (getPerformanceStats sample_history) = Inr (Fin 25)
   \<and> map_sum id s_winRate (getPerformanceStats sample_history) = Inr (Fin 20)
   \<and> b_accuracy (finalizeBucket sample_bucket) = Fin 25
   \<and> b_winRate (finalizeBucket sample_bucket) = Fin 20"
proof -
  have inv: "list_all (\<lambda>d. status d = Evaluated \<longrightarrow> evaluation d \<noteq> None) sample_history"
    by (simp add: sample_history_def evaluated_sample_def sample_decision_def)
  have counts: "evaluated_as Correct sample_history = 1" "evaluated_as Incorrect sample_history = 3"
    "count_status Evaluated sample_history = 5"
    by (simp_all add: evaluated_as_def count_status_def sample_history_def evaluated_sample_def
          sample_decision_def)
  from stats_accuracy_and_winRate [where h = sample_history and b = sample_bucket] inv
  obtain st where st: "getPerformanceStats sample_history = Inr st"
      "s_evaluated st = count_status Evaluated sample_history"
      "s_correct st = evaluated_as Correct sample_history"
      "s_incorrect st = evaluated_as Incorrect sample_history"
      "s_accuracy st =
         (if 0 < s_correct st + s_incorrect st
          then Fin (real (s_correct st) / real (s_correct st + s_incorrect st) * 100)
          else Fin 0)"
      "s_winRate st =
         (if 0 < s_evaluated st
          then Fin (real (s_correct st) / real (s_evaluated st) * 100)
          else Fin 0)"
    and bk: "b_accuracy (finalizeBucket sample_bucket) =
        (if 0 < b_correct sample_bucket + b_incorrect sample_bucket
         then Fin (real (b_correct sample_bucket)
                   / real (b_correct sample_bucket + b_incorrect sample_bucket) * 100)
         else Fin 0)"
      "b_winRate (finalizeBucket sample_bucket) =
        (if 0 < b_total sample_bucket
         then Fin (real (b_correct sample_bucket) / real (b_total sample_bucket) * 100)
         else Fin 0)"
    by blast
  have acc: "s_accuracy st = Fin 25" and win: "s_winRate st = Fin 20"
    using st counts by simp_all
  have bacc: "b_accuracy (finalizeBucket sample_bucket) = Fin 25"
    and bwin: "b_winRate (finalizeBucket sample_bucket) = Fin 20"
    using bk by (simp_all add: sample_bucket_def)
  show ?thesis
    using inv acc win bacc bwin by (simp add: st(1))
qed

section \<open>What the consumer is told\<close>

lemma errors_loop_flags:
  "map w_success xs = map w_success ys \<Longrightarrow> errors_loop xs c m = errors_loop ys c m"
proof (induction xs arbitrary: ys c m)
  case Nil
  then show ?case by simp
next
  case (Cons x xs)
  then obtain y ys' where ys: "ys = y # ys'" by (cases ys) auto
  with Cons.prems have "w_success x = w_success y" "map w_success xs = map w_success ys'" by simp_all
  then show ?case using Cons.IH[of ys'] by (simp add: ys)
qed

lemma errors_loop_shift:
  "fst (errors_loop xs c m) = c + fst (errors_loop xs 0 0)"
proof (induction xs arbitrary: c m)
  case Nil
  show ?case by simp
next
  case (Cons x xs)
  show ?case
    using Cons.IH[of "c + 1" "max m (c + 1)"] Cons.IH[of 1 1] by simp
qed

lemma errors_loop_takeWhile:
  "fst (errors_loop xs 0 0) = length (takeWhile (\<lambda>d. \<not> w_success d) xs)"
proof (induction xs)
  case Nil
  show ?case by simp
next
  case (Cons x xs)
  show ?case
    using Cons.IH errors_loop_shift[of xs 1 1] by simp
qed

lemma streak_takeWhile:
  "fst (calculateConsecutiveErrors w) = length (takeWhile (\<lambda>d. \<not> w_success d) (rev w))"
  unfolding calculateConsecutiveErrors_def by (rule errors_loop_takeWhile)

lemma streak_after_failure:
  assumes "length w \<le> WINDOW_SIZE" "\<not> w_success e"
  shows "fst (calculateConsecutiveErrors (pushed_window w e))
           = min (fst (calculateConsecutiveErrors w) + 1) WINDOW_SIZE"
proof (cases "length w < WINDOW_SIZE")
  case True
  have le: "length (takeWhile (\<lambda>d. \<not> w_success d) (rev w)) \<le> length w"
    using length_takeWhile_le[of "\<lambda>d. \<not> w_success d" "rev w"] by simp
  show ?thesis
    using True assms(2) le
    by (simp add: pushed_window_def streak_takeWhile)
next
  case False
  with assms(1) have full: "length w = WINDOW_SIZE" by simp
  then obtain x w0 where w: "w = x # w0" by (cases w) (auto simp add: WINDOW_SIZE_def)
  have l0: "Suc (length w0) = WINDOW_SIZE" using full w by simp
  have pushed: "pushed_window w e = w0 @ [e]"
    using full w by (simp add: pushed_window_def)
  have after: "fst (calculateConsecutiveErrors (pushed_window w e))
                 = Suc (length (takeWhile (\<lambda>d. \<not> w_success d) (rev w0)))"
    using assms(2) by (simp add: pushed streak_takeWhile)
  show ?thesis
  proof (cases "\<forall>d\<in>set (rev w0). \<not> w_success d")
    case True
    then have t0: "takeWhile (\<lambda>d. \<not> w_success d) (rev w0) = rev w0"
      by (simp add: takeWhile_eq_all_conv)
    have "takeWhile (\<lambda>d. \<not> w_success d) (rev w0 @ [x]) = rev w0 @ takeWhile (\<lambda>d. \<not> w_success d) [x]"
      using True by (intro takeWhile_append2) simp
    then have before: "fst (calculateConsecutiveErrors w)
          = length w0 + (if w_success x then 0 else 1)"
      by (simp add: w streak_takeWhile)
    show ?thesis using l0 by (simp add: after before t0)
  next
    case False
    then obtain d where d: "d \<in> set (rev w0)" "\<not> \<not> w_success d" by blast
    have same: "takeWhile (\<lambda>d. \<not> w_success d) (rev w0 @ [x]) = takeWhile (\<lambda>d. \<not> w_success d) (rev w0)"
      using d by (rule takeWhile_append1)
    have "takeWhile (\<lambda>d. \<not> w_success d) (rev w0) \<noteq> rev w0"
      using False by (simp add: takeWhile_eq_all_conv)
    then have "length (takeWhile (\<lambda>d. \<not> w_success d) (rev w0)) \<noteq> length (rev w0)"
      by (metis takeWhile_eq_take take_all_iff order_refl)
    then have lt: "length (takeWhile (\<lambda>d. \<not> w_success d) (rev w0)) < length w0"
      using length_takeWhile_le[of "\<lambda>d. \<not> w_success d" "rev w0"] by simp
    have before: "fst (calculateConsecutiveErrors w) = length (takeWhile (\<lambda>d. \<not> w_success d) (rev w0))"
      by (simp add: w streak_takeWhile same)
    show ?thesis using l0 lt by (simp add: after before)
  qed
qed

lemma accuracy_flags:
  "map w_success xs = map w_success ys \<Longrightarrow> calculateAccuracy xs = calculateAccuracy ys"
proof -
  assume a: "map w_success xs = map w_success ys"
  have len: "length xs = length ys" using a by (rule map_eq_imp_length_eq)
  have "length (filter (\<lambda>d. w_success d) xs) = length (filter id (map w_success xs))"
    by (simp add: filter_map comp_def)
  also have "\<dots> = length (filter id (map w_success ys))" by (simp only: a)
  also have "\<dots> = length (filter (\<lambda>d. w_success d) ys)"
    by (simp add: filter_map comp_def)
  finally show ?thesis using len by (simp add: calculateAccuracy_def)
qed

lemma record_pushed:
  "p_success p = Some b \<Longrightarrow>
   fst (SystemState_recordDecision now (Some p) w) = pushed_window w (stored_entry now p b)"
  by (simp add: SystemState_recordDecision_def pushed_window_def Let_def)

lemma pushed_flags:
  "w_success e = w_success e' \<Longrightarrow> map w_success (pushed_window w e) = map w_success (pushed_window w e')"
  by (simp add: pushed_window_def map_tl)

text \<open>
  Claim C10. When a ready decision is evaluated and the consumer is present, the consumer
  receives a payload whose \<open>success\<close> is true exactly when the result is correct; for a
  neutral result, as for an incorrect one, it is false. Two payloads with \<open>success\<close> false
  leave the consumer with the same accuracy and the same streak of consecutive errors,
  whatever their other fields. Such a payload makes the streak one longer, up to the 50
  entries the window holds, and, while the window is not full, enters the accuracy in the
  denominator only.
\<close>

theorem neutral_counts_as_failure:
  "(status d = Ready \<longrightarrow>
      (case evaluateDecision now d fp (Some w) of (r, d', c') \<Rightarrow>
         \<exists>p. p_success p = Some (r = Some Correct)
            \<and> c' = Some (fst (SystemState_recordDecision now (Some p) w))
            \<and> (r = Some Neutral \<longrightarrow> p_success p = Some False)
            \<and> (r = Some Incorrect \<longrightarrow> p_success p = Some False)))
   \<and> (p_success p = Some False \<and> p_success q = Some False \<longrightarrow>
        calculateAccuracy (fst (SystemState_recordDecision now (Some p) w))
          = calculateAccuracy (fst (SystemState_recordDecision now' (Some q) w))
      \<and> calculateConsecutiveErrors (fst (SystemState_recordDecision now (Some p) w))
          = calculateConsecutiveErrors (fst (SystemState_recordDecision now' (Some q) w)))
   \<and> (p_success p = Some False \<and> length w \<le> WINDOW_SIZE \<longrightarrow>
        fst (calculateConsecutiveErrors (fst (SystemState_recordDecision now (Some p) w)))
          = min (fst (calculateConsecutiveErrors w) + 1) WINDOW_SIZE)
   \<and> (p_success p = Some False \<and> length w < WINDOW_SIZE \<longrightarrow>
        calculateAccuracy (fst (SystemState_recordDecision now (Some p) w))
          = Fin (real (length (filter w_success w)) / real (length w + 1) * 100))"
proof (intro conjI impI)
  assume r: "status d = Ready"
  define pc where "pc = jmul (jdiv (jsub fp (currentPrice d)) (currentPrice d)) (Fin 100)"
  define res where "res = classify (direction d) pc"
  define pl where "pl = \<lparr> p_timeframe = Some (timeframe d), p_direction = Some (direction d),
                          p_success = Some (res = Correct), p_return = Some pc,
                          p_confidence = Some (confidence d), p_timestamp = Some now \<rparr>"
  have ev: "evaluateDecision now d fp (Some w) =
      (Some res,
       d\<lparr> status := Evaluated,
          evaluation := Some \<lparr> e_result = res, e_futurePrice = fp,
                               e_priceChange = pc, e_evaluatedAt = now \<rparr> \<rparr>,
       Some (fst (SystemState_recordDecision now (Some pl) w)))"
    using r by (simp add: evaluateDecision_def Let_def pc_def res_def pl_def)
  have "p_success pl = Some (Some res = Some Correct)
        \<and> Some (fst (SystemState_recordDecision now (Some pl) w))
            = Some (fst (SystemState_recordDecision now (Some pl) w))
        \<and> (Some res = Some Neutral \<longrightarrow> p_success pl = Some False)
        \<and> (Some res = Some Incorrect \<longrightarrow> p_success pl = Some False)"
    by (simp add: pl_def)
  then show "case evaluateDecision now d fp (Some w) of (r, d', c') \<Rightarrow>
         \<exists>p. p_success p = Some (r = Some Correct)
            \<and> c' = Some (fst (SystemState_recordDecision now (Some p) w))
            \<and> (r = Some Neutral \<longrightarrow> p_success p = Some False)
            \<and> (r = Some Incorrect \<longrightarrow> p_success p = Some False)"
    unfolding ev by (simp only: prod.case) (rule exI[of _ pl])
next
  assume a: "p_success p = Some False \<and> p_success q = Some False"
  have flags: "map w_success (fst (SystemState_recordDecision now (Some p) w))
             = map w_success (fst (SystemState_recordDecision now' (Some q) w))"
    unfolding record_pushed[OF conjunct1[OF a]] record_pushed[OF conjunct2[OF a]]
    by (rule pushed_flags) (simp add: stored_entry_def)
  show "calculateAccuracy (fst (SystemState_recordDecision now (Some p) w))
          = calculateAccuracy (fst (SystemState_recordDecision now' (Some q) w))"
    using flags by (rule accuracy_flags)
  have "map w_success (rev (fst (SystemState_recordDecision now (Some p) w)))
             = map w_success (rev (fst (SystemState_recordDecision now' (Some q) w)))"
    using flags by (simp add: rev_map [symmetric])
  then show "calculateConsecutiveErrors (fst (SystemState_recordDecision now (Some p) w))
          = calculateConsecutiveErrors (fst (SystemState_recordDecision now' (Some q) w))"
    unfolding calculateConsecutiveErrors_def by (rule errors_loop_flags)
next
  assume a: "p_success p = Some False \<and> length w \<le> WINDOW_SIZE"
  have f: "\<not> w_success (stored_entry now p False)" by (simp add: stored_entry_def)
  show "fst (calculateConsecutiveErrors (fst (SystemState_recordDecision now (Some p) w)))
          = min (fst (calculateConsecutiveErrors w) + 1) WINDOW_SIZE"
    unfolding record_pushed[OF conjunct1[OF a]]
    using conjunct2[OF a] f by (rule streak_after_failure)
next
  assume a: "p_success p = Some False \<and> length w < WINDOW_SIZE"
  then have w': "fst (SystemState_recordDecision now (Some p) w) = w @ [stored_entry now p False]"
    unfolding record_pushed[OF conjunct1[OF a]] by (simp add: pushed_window_def)
  have f: "\<not> w_success (stored_entry now p False)" by (simp add: stored_entry_def)
  show "calculateAccuracy (fst (SystemState_recordDecision now (Some p) w))
          = Fin (real (length (filter w_success w)) / real (length w + 1) * 100)"
    unfolding w' using f by (simp add: calculateAccuracy_def)
qed

theorem neutral_counts_as_failure_witness:
  "status (sample_decision ''SELL'' Ready) = Ready
   \<and> fst (evaluateDecision 200000 (sample_decision ''SELL'' Ready) (Fin (10005 / 100))
            (Some [sample_window_entry True])) = Some Neutral
   \<and> map_option (map w_success)
       (snd (snd (evaluateDecision 200000 (sample_decision ''SELL'' Ready) (Fin (10005 / 100))
                    (Some [sample_window_entry True])))) = Some [True, False]
   \<and> p_success (sample_report (Some False)) = Some False
   \<and> length [sample_window_entry True] < WINDOW_SIZE
   \<and> fst (calculateConsecutiveErrors
            (fst (SystemState_recordDecision 5 (Some (sample_report (Some False)))
                    [sample_window_entry True]))) = 1
   \<and> calculateAccuracy
        (fst (SystemState_recordDecision 5 (Some (sample_report (Some False)))
                [sample_window_entry True])) = Fin 50"
proof -
  have h: "status (sample_decision ''SELL'' Ready) = Ready"
    by (simp add: sample_decision_def)
  have streak: "fst (calculateConsecutiveErrors [sample_window_entry True]) = 0"
    by (simp add: calculateConsecutiveErrors_def sample_window_entry_def)
  show ?thesis
    using h streak
      neutral_counts_as_failure [where d = "sample_decision ''SELL'' Ready" and now = 200000
        and fp = "Fin (10005 / 100)" and w = "[sample_window_entry True]"
        and p = "sample_report (Some False)" and q = "sample_report (Some False)" and now' = 5]
      neutral_counts_as_failure [where d = "sample_decision ''SELL'' Ready" and now = 5
        and fp = "Fin (10005 / 100)" and w = "[sample_window_entry True]"
        and p = "sample_report (Some False)" and q = "sample_report (Some False)" and now' = 5]
    by (simp add: sample_decision_def sample_payload_def new_decision_def evaluateDecision_def
          classify_def threshold_def jgt_def jsub_def Let_def sample_report_def
          sample_window_entry_def SystemState_recordDecision_def stored_entry_def
          WINDOW_SIZE_def str_or_def num_or_def truthy_def)
qed

end
